theory Spec2Isabelle
  imports Complex_Main "HOL-Library.Sublist"
begin

section \<open>GIF maker: the conversion pipeline of \<open>src/App.tsx\<close>\<close>

text \<open>
  The development embeds the component \<open>App\<close> of \<open>src/App.tsx\<close>: its React state, the
  two handlers \<open>loadFFmpeg\<close> and \<open>generateGif\<close>, and the argument lists the latter hands to
  the ffmpeg engine. The engine, the network and the clock are outside the repository; they
  are an oracle (\<open>world\<close>) that decides whether each awaited call resolves or rejects.
\<close>

subsection \<open>JavaScript numbers and their rendering\<close>

text \<open>
  A JavaScript \<open>number\<close> is NaN, an infinity, or a finite value. A finite value is kept as
  the exact rational it denotes (every binary64 value is one), so \<open>Math.max\<close>, \<open>Math.min\<close>,
  \<open>===\<close> and \<open>toFixed\<close>, which ECMAScript defines on the exact value, are modelled exactly.
  The sign of zero is not kept: \<open>-0\<close> and \<open>0\<close> render alike in every use below.
\<close>

datatype jsnum = NaN | PosInf | NegInf | Fin rat

fun Math_max :: "jsnum \<Rightarrow> jsnum \<Rightarrow> jsnum" where
  "Math_max NaN _ = NaN"
| "Math_max _ NaN = NaN"
| "Math_max PosInf _ = PosInf"
| "Math_max _ PosInf = PosInf"
| "Math_max NegInf b = b"
| "Math_max a NegInf = a"
| "Math_max (Fin a) (Fin b) = Fin (max a b)"

fun Math_min :: "jsnum \<Rightarrow> jsnum \<Rightarrow> jsnum" where
  "Math_min NaN _ = NaN"
| "Math_min _ NaN = NaN"
| "Math_min NegInf _ = NegInf"
| "Math_min _ NegInf = NegInf"
| "Math_min PosInf b = b"
| "Math_min a PosInf = a"
| "Math_min (Fin a) (Fin b) = Fin (min a b)"

definition digit_char :: "nat \<Rightarrow> char" where
  "digit_char d = ''0123456789'' ! d"

text \<open>The decimal digits of a natural number, most significant first (\<open>0\<close> is \<open>''0''\<close>).\<close>

function showNat :: "nat \<Rightarrow> string" where
  "showNat n = (if n < 10 then [digit_char n] else showNat (n div 10) @ [digit_char (n mod 10)])"
  by pat_completeness auto
termination
  by (relation "measure id") auto

declare showNat.simps [simp del]

text \<open>
  \<open>Number::toString\<close>, as used by template literals and \<open>String(...)\<close>. For an integer of
  magnitude at most \<open>2^53\<close> it is the decimal numeral. For any other finite value it is the
  shortest digit string that reads back as the same binary64 value, in positional or
  exponent form; that string depends on the binary64 neighbours of the value and is the
  parameter \<open>shortest\<close>, applied to the magnitude.
\<close>

definition numberToString :: "(rat \<Rightarrow> string) \<Rightarrow> jsnum \<Rightarrow> string" where
  "numberToString shortest x =
     (case x of
        NaN \<Rightarrow> ''NaN''
      | PosInf \<Rightarrow> ''Infinity''
      | NegInf \<Rightarrow> ''-Infinity''
      | Fin r \<Rightarrow>
          (if r < 0 then ''-'' else '''') @
          (if \<bar>r\<bar> = of_int \<lfloor>\<bar>r\<bar>\<rfloor> \<and> \<bar>r\<bar> \<le> 2 ^ 53 then showNat (nat \<lfloor>\<bar>r\<bar>\<rfloor>)
           else shortest \<bar>r\<bar>))"

text \<open>
  \<open>Number.prototype.toFixed(2)\<close> (ECMAScript 21.1.3.3 with \<open>f = 2\<close>): a non-finite value is
  rendered by \<open>Number::toString\<close>; a magnitude of \<open>10^21\<close> or more too; otherwise \<open>n\<close> is the
  integer closest to \<open>100 * x\<close> (the larger one on a tie), its digits are padded to three
  with leading zeros, and the point goes before the last two.
\<close>

definition toFixed :: "(rat \<Rightarrow> string) \<Rightarrow> jsnum \<Rightarrow> string" where
  "toFixed shortest v =
     (case v of
        Fin r \<Rightarrow>
          (let s = (if r < 0 then ''-'' else ''''); x = \<bar>r\<bar> in
           if x \<ge> 10 ^ 21 then s @ numberToString shortest (Fin x)
           else
             (let n = nat \<lfloor>x * 100 + 1 / 2\<rfloor>;
                  m = showNat n;
                  k = length m;
                  m' = (if k \<le> 2 then replicate (3 - k) (CHR ''0'') @ m else m);
                  k' = (if k \<le> 2 then 3 else k)
              in s @ take (k' - 2) m' @ ''.'' @ drop (k' - 2) m'))
      | _ \<Rightarrow> numberToString shortest v)"

text \<open>The binary64 value of the source literal \<open>0.2\<close>.\<close>

definition lit_0_2 :: rat where
  "lit_0_2 = 3602879701896397 / 18014398509481984"

subsection \<open>Settings, presets and the React state\<close>

datatype Dither = D_none | D_bayer | D_floyd_steinberg | D_sierra2 | D_sierra2_4a

fun dither_str :: "Dither \<Rightarrow> string" where
  "dither_str D_none = ''none''"
| "dither_str D_bayer = ''bayer''"
| "dither_str D_floyd_steinberg = ''floyd_steinberg''"
| "dither_str D_sierra2 = ''sierra2''"
| "dither_str D_sierra2_4a = ''sierra2_4a''"

datatype PresetKey = Ultra | Balanced | Compact

record Settings =
  s_fps :: jsnum
  s_width :: jsnum
  s_colors :: jsnum
  s_dither :: Dither

fun PRESETS :: "PresetKey \<Rightarrow> Settings" where
  "PRESETS Ultra = \<lparr>s_fps = Fin 20, s_width = Fin 1280, s_colors = Fin 256, s_dither = D_sierra2_4a\<rparr>"
| "PRESETS Balanced = \<lparr>s_fps = Fin 15, s_width = Fin 960, s_colors = Fin 256, s_dither = D_sierra2_4a\<rparr>"
| "PRESETS Compact = \<lparr>s_fps = Fin 12, s_width = Fin 720, s_colors = Fin 128, s_dither = D_bayer\<rparr>"

text \<open>
  A \<open>File\<close>: its name and its bytes. A byte is kept as a natural number; only the
  number of bytes matters below.
\<close>

record File =
  file_name :: string
  file_bytes :: "nat list"

text \<open>
  Object URLs are opaque strings minted by the browser, never empty; they are modelled by
  their issue number, so that the test \<open>if (gifUrl)\<close> is \<open>gifUrl \<noteq> None\<close>.
\<close>

type_synonym url = nat

text \<open>
  The \<open>useState\<close> cells of \<open>App\<close> (the theme flag apart), then the browser's object-URL
  store, then the log of the calls made to the outside, each tagged with the number of the
  handler invocation that made it.
\<close>

datatype event =
    EngineOnProgress
  | ToBlobURL string
  | EngineLoad
  | FetchFile string
  | WriteFile string
  | Exec "string list"
  | ReadFile string
  | DeleteFile string
  | RevokeObjectURL url
  | CreateObjectURL url nat string
  | ConsoleError

record app =
  loaded :: bool
  file' :: "File option"
  preset :: PresetKey
  fps :: jsnum
  width :: jsnum
  colors :: jsnum
  dither :: Dither
  startSec :: jsnum
  durationSec :: jsnum
  loopCount :: jsnum
  speed :: jsnum
  generating :: bool
  progress :: jsnum
  status :: string
  gifUrl :: "url option"
  created :: "url list"
  revoked :: "url list"
  log :: "(nat \<times> event) list"

definition initial_app :: app where
  "initial_app =
     \<lparr>loaded = False, file' = None, preset = Balanced,
      fps = s_fps (PRESETS Balanced), width = s_width (PRESETS Balanced),
      colors = s_colors (PRESETS Balanced), dither = s_dither (PRESETS Balanced),
      startSec = Fin 0, durationSec = Fin 5, loopCount = Fin 0, speed = Fin 1,
      generating = False, progress = Fin 0,
      status = ''Load ffmpeg and drop a video to begin.'',
      gifUrl = None, created = [], revoked = [], log = []\<rparr>"


subsection \<open>The engine argument lists (lines 97 to 129 of \<open>generateGif\<close>)\<close>

text \<open>Each builder reads the state cells captured by the handler's closure, here \<open>c\<close>.\<close>

definition trimArgs :: "(rat \<Rightarrow> string) \<Rightarrow> app \<Rightarrow> string list" where
  "trimArgs sh c =
     [''-ss'', toFixed sh (Math_max (Fin 0) (startSec c)),
      ''-t'', toFixed sh (Math_max (Fin lit_0_2) (durationSec c))]"

definition speedFilter :: "(rat \<Rightarrow> string) \<Rightarrow> app \<Rightarrow> string" where
  "speedFilter sh c =
     (if speed c = Fin 1 then '''' else '',setpts=PTS/'' @ numberToString sh (speed c))"

definition scaleAndRate :: "(rat \<Rightarrow> string) \<Rightarrow> app \<Rightarrow> string" where
  "scaleAndRate sh c =
     ''fps='' @ numberToString sh (fps c) @ '',scale='' @ numberToString sh (width c) @
     '':-1:flags=lanczos'' @ speedFilter sh c"

definition paletteFilter :: "(rat \<Rightarrow> string) \<Rightarrow> app \<Rightarrow> string" where
  "paletteFilter sh c =
     scaleAndRate sh c @ '',palettegen=max_colors='' @
     numberToString sh (Math_max (Fin 2) (Math_min (Fin 256) (colors c))) @
     '':stats_mode=full''"

definition paletteArgs :: "(rat \<Rightarrow> string) \<Rightarrow> app \<Rightarrow> string \<Rightarrow> string \<Rightarrow> string list" where
  "paletteArgs sh c inputName paletteName =
     [''-y'', ''-i'', inputName] @ trimArgs sh c @
     [''-frames:v'', ''1'', ''-update'', ''1'', ''-vf'', paletteFilter sh c, paletteName]"

definition renderFilter :: "(rat \<Rightarrow> string) \<Rightarrow> app \<Rightarrow> string" where
  "renderFilter sh c =
     scaleAndRate sh c @ ''[x];[x][1:v]paletteuse=dither='' @ dither_str (dither c) @
     '':diff_mode=rectangle''"

definition renderArgs ::
  "(rat \<Rightarrow> string) \<Rightarrow> app \<Rightarrow> string \<Rightarrow> string \<Rightarrow> string \<Rightarrow> string list" where
  "renderArgs sh c inputName paletteName outputName =
     [''-y'', ''-i'', inputName] @ trimArgs sh c @
     [''-i'', paletteName, ''-lavfi'', renderFilter sh c,
      ''-loop'', numberToString sh (loopCount c), outputName]"


subsection \<open>The outside world\<close>

text \<open>
  What \<open>ffmpeg.readFile\<close> resolves with: its type is \<open>Uint8Array | string\<close>. A string is kept
  in its UTF-8 form, so that \<open>TextEncoder.encode\<close> is the byte value of each character.
\<close>

datatype FileData = Uint8Array "nat list" | Text string

fun normalize_bytes :: "FileData \<Rightarrow> nat list" where
  "normalize_bytes (Uint8Array b) = b"
| "normalize_bytes (Text str) = map of_char str"

text \<open>
  The answers one handler invocation gets from the outside: the three readings of
  \<open>Date.now()\<close> (milliseconds, an integer), and for each awaited call whether its promise
  resolves (\<open>True\<close>, or the value it resolves with) or rejects (\<open>False\<close>, or \<open>None\<close>).
  \<open>ffmpeg.exec\<close> resolves with ffmpeg's exit code; the source awaits it as a statement and
  discards the code, so a pass that exits with a non-zero code is a resolved call.
  \<open>shortest\<close> is the parameter of \<open>numberToString\<close>. The progress events of the engine only
  set the cell \<open>progress\<close>, which no handler reads; they are left out.
\<close>

record world =
  shortest :: "rat \<Rightarrow> string"
  now_input :: int
  now_palette :: int
  now_output :: int
  toBlobURL_ok :: "string \<Rightarrow> bool"
  load_ok :: bool
  fetchFile_ok :: bool
  writeFile_ok :: "string \<Rightarrow> bool"
  exec_result :: "string list \<Rightarrow> int option"
  readFile_result :: "string \<Rightarrow> FileData option"
  deleteFile_ok :: "string \<Rightarrow> bool"

definition CORE_BASE :: string where
  "CORE_BASE = ''https://unpkg.com/@ffmpeg/core@0.12.6/dist/esm''"

subsection \<open>Handler invocations as tasks\<close>

text \<open>
  An \<open>async\<close> function runs without interruption from one \<open>await\<close> to the next. An
  invocation is therefore a task: the awaited call it is suspended on (\<open>stage\<close>), the
  state cells its closure captured when the handler was invoked (\<open>cap\<close>: \<open>file\<close>,
  \<open>loaded\<close>, \<open>gifUrl\<close> and the settings are read from there, not from the current state),
  and its local variables. \<open>resume\<close> runs one segment: it takes the outcome of the awaited
  call from the world and runs the code up to the next \<open>await\<close>.
\<close>

datatype stage =
    CoreURL | WasmURL | Load | LoadFFmpeg | FetchFileSt | WriteFileSt
  | ExecPalette | ExecRender | ReadFileSt | DeleteInput | DeletePalette | DeleteOutput

datatype pc =
    Start
  | Await stage
  | ReturnedNoFile
  | Completed
  | Caught stage
  | Rejected stage

datatype handler = Preload | Generate

record task =
  tid :: nat
  handler :: handler
  pc :: pc
  env :: world
  cap :: app
  inputName :: string
  paletteName :: string
  outputName :: string

definition new_task :: "handler \<Rightarrow> world \<Rightarrow> nat \<Rightarrow> app \<Rightarrow> task" where
  "new_task h w i s =
     \<lparr>tid = i, handler = h, pc = Start, env = w, cap = s,
      inputName = [], paletteName = [], outputName = []\<rparr>"

fun terminal :: "pc \<Rightarrow> bool" where
  "terminal Start = False"
| "terminal (Await _) = False"
| "terminal _ = True"

definition emit :: "task \<Rightarrow> event \<Rightarrow> app \<Rightarrow> app" where
  "emit t e s = s\<lparr>log := log s @ [(tid t, e)]\<rparr>"

text \<open>
  A rejected \<open>await\<close> at stage \<open>st\<close>. In \<open>generateGif\<close> it is inside the \<open>try\<close>: the
  \<open>catch\<close> block logs the error and sets the one failure status, and \<open>finally\<close> resets
  \<open>generating\<close>. \<open>loadFFmpeg\<close> invoked by its own button has no handler: its promise
  rejects.
\<close>

definition throw :: "stage \<Rightarrow> task \<Rightarrow> app \<Rightarrow> task \<times> app" where
  "throw st t s =
     (case handler t of
        Generate \<Rightarrow>
          (t\<lparr>pc := Caught st\<rparr>,
           (emit t ConsoleError s)
             \<lparr>status := ''Conversion failed. Try a shorter clip or lower preset.'',
              generating := False\<rparr>)
      | Preload \<Rightarrow> (t\<lparr>pc := Rejected st\<rparr>, s))"

text \<open>\<open>loadFFmpeg\<close> returns: to \<open>await loadFFmpeg()\<close> in \<open>generateGif\<close>, or to nobody.\<close>

definition loadFFmpeg_return :: "task \<Rightarrow> app \<Rightarrow> task \<times> app" where
  "loadFFmpeg_return t s =
     (case handler t of
        Generate \<Rightarrow> (t\<lparr>pc := Await LoadFFmpeg\<rparr>, s)
      | Preload \<Rightarrow> (t\<lparr>pc := Completed\<rparr>, s))"

text \<open>Lines 60 to 68: the test of \<open>loaded\<close>, the subscription, the first \<open>toBlobURL\<close>.\<close>

definition loadFFmpeg_enter :: "task \<Rightarrow> app \<Rightarrow> task \<times> app" where
  "loadFFmpeg_enter t s =
     (if loaded (cap t) then loadFFmpeg_return t s
      else
        (t\<lparr>pc := Await CoreURL\<rparr>,
         emit t (ToBlobURL (CORE_BASE @ ''/ffmpeg-core.js''))
           (emit t EngineOnProgress
              (s\<lparr>status := ''Loading ffmpeg core (first run can take ~30MB)...''\<rparr>))))"

text \<open>
  Lines 132 to 138: the bytes become a blob of type \<open>image/gif\<close>, the handle the closure
  knows is revoked, a new handle is minted (one the browser never issued before) and stored.
\<close>

definition publish :: "task \<Rightarrow> FileData \<Rightarrow> app \<Rightarrow> app" where
  "publish t data s =
     (let bytes = normalize_bytes data;
          blob_size = length bytes;
          s1 = (case gifUrl (cap t) of
                  None \<Rightarrow> s
                | Some old \<Rightarrow> emit t (RevokeObjectURL old) (s\<lparr>revoked := revoked s @ [old]\<rparr>));
          url = length (created s1);
          s2 = emit t (CreateObjectURL url blob_size ''image/gif'')
                 (s1\<lparr>created := created s1 @ [url]\<rparr>)
      in s2\<lparr>gifUrl := Some url,
            status := ''Done. GIF size '' @
              toFixed (shortest (env t)) (Fin (of_int (int blob_size) / (1024 * 1024))) @ '' MB''\<rparr>)"

text \<open>
  One segment of a handler. At \<open>Start\<close> the handler is invoked: \<open>generateGif\<close> tests \<open>file\<close>
  (lines 79 to 82) and enters \<open>loadFFmpeg\<close> (line 85); \<open>loadFFmpeg\<close> is entered directly.
  At \<open>Await st\<close> the awaited call of stage \<open>st\<close> is answered: a rejection is thrown, otherwise
  the code up to the next \<open>await\<close> runs and issues the next call. The artifact names are
  allocated once \<open>await loadFFmpeg()\<close> has returned (lines 91 to 93); \<open>file.name\<close> on a
  missing file would raise inside the \<open>try\<close>. A task at rest stays as it is.
\<close>

definition resume :: "task \<Rightarrow> app \<Rightarrow> task \<times> app" where
  "resume t s =
     (let w = env t; c = cap t; sh = shortest (env t) in
      case pc t of
        Start \<Rightarrow>
          (case handler t of
             Preload \<Rightarrow> loadFFmpeg_enter t s
           | Generate \<Rightarrow>
               (if file' c = None
                then (t\<lparr>pc := ReturnedNoFile\<rparr>, s\<lparr>status := ''Choose a video file first.''\<rparr>)
                else loadFFmpeg_enter t s))
      | Await CoreURL \<Rightarrow>
          (if toBlobURL_ok w (CORE_BASE @ ''/ffmpeg-core.js'')
           then (t\<lparr>pc := Await WasmURL\<rparr>, emit t (ToBlobURL (CORE_BASE @ ''/ffmpeg-core.wasm'')) s)
           else throw CoreURL t s)
      | Await WasmURL \<Rightarrow>
          (if toBlobURL_ok w (CORE_BASE @ ''/ffmpeg-core.wasm'')
           then (t\<lparr>pc := Await Load\<rparr>, emit t EngineLoad s)
           else throw WasmURL t s)
      | Await Load \<Rightarrow>
          (if load_ok w
           then loadFFmpeg_return t
                  (s\<lparr>loaded := True, status := ''ffmpeg loaded. Ready to generate.''\<rparr>)
           else throw Load t s)
      | Await LoadFFmpeg \<Rightarrow>
          (case file' c of
             None \<Rightarrow> throw LoadFFmpeg t s
           | Some f \<Rightarrow>
               (t\<lparr>pc := Await FetchFileSt,
                  inputName := ''input-'' @ numberToString sh (Fin (of_int (now_input w))) @
                               ''-'' @ file_name f,
                  paletteName := ''palette-'' @ numberToString sh (Fin (of_int (now_palette w))) @
                                 ''.png'',
                  outputName := ''output-'' @ numberToString sh (Fin (of_int (now_output w))) @
                                ''.gif''\<rparr>,
                emit t (FetchFile (file_name f))
                  (s\<lparr>generating := True, progress := Fin 0, status := ''Preparing video...''\<rparr>)))
      | Await FetchFileSt \<Rightarrow>
          (if fetchFile_ok w
           then (t\<lparr>pc := Await WriteFileSt\<rparr>, emit t (WriteFile (inputName t)) s)
           else throw FetchFileSt t s)
      | Await WriteFileSt \<Rightarrow>
          (if writeFile_ok w (inputName t)
           then (t\<lparr>pc := Await ExecPalette\<rparr>,
                 emit t (Exec (paletteArgs sh c (inputName t) (paletteName t)))
                   (s\<lparr>status := ''Generating color palette...''\<rparr>))
           else throw WriteFileSt t s)
      | Await ExecPalette \<Rightarrow>
          (case exec_result w (paletteArgs sh c (inputName t) (paletteName t)) of
             None \<Rightarrow> throw ExecPalette t s
           | Some exit_code \<Rightarrow>
               (t\<lparr>pc := Await ExecRender\<rparr>,
                emit t (Exec (renderArgs sh c (inputName t) (paletteName t) (outputName t)))
                  (s\<lparr>status := ''Rendering GIF...''\<rparr>)))
      | Await ExecRender \<Rightarrow>
          (case exec_result w (renderArgs sh c (inputName t) (paletteName t) (outputName t)) of
             None \<Rightarrow> throw ExecRender t s
           | Some exit_code \<Rightarrow>
               (t\<lparr>pc := Await ReadFileSt\<rparr>, emit t (ReadFile (outputName t)) s))
      | Await ReadFileSt \<Rightarrow>
          (case readFile_result w (outputName t) of
             None \<Rightarrow> throw ReadFileSt t s
           | Some data \<Rightarrow>
               (t\<lparr>pc := Await DeleteInput\<rparr>,
                emit t (DeleteFile (inputName t)) (publish t data s)))
      | Await DeleteInput \<Rightarrow>
          (if deleteFile_ok w (inputName t)
           then (t\<lparr>pc := Await DeletePalette\<rparr>, emit t (DeleteFile (paletteName t)) s)
           else throw DeleteInput t s)
      | Await DeletePalette \<Rightarrow>
          (if deleteFile_ok w (paletteName t)
           then (t\<lparr>pc := Await DeleteOutput\<rparr>, emit t (DeleteFile (outputName t)) s)
           else throw DeletePalette t s)
      | Await DeleteOutput \<Rightarrow>
          (if deleteFile_ok w (outputName t)
           then (t\<lparr>pc := Completed\<rparr>, s\<lparr>generating := False\<rparr>)
           else throw DeleteOutput t s)
      | _ \<Rightarrow> (t, s))"

text \<open>
  One invocation run to its end with nothing in between: at most thirteen segments. The
  result is the task at rest and the state it leaves.
\<close>

fun run_task :: "nat \<Rightarrow> task \<times> app \<Rightarrow> task \<times> app" where
  "run_task 0 x = x"
| "run_task (Suc n) (t, s) = (if terminal (pc t) then (t, s) else run_task n (resume t s))"

definition generateGif :: "world \<Rightarrow> nat \<Rightarrow> app \<Rightarrow> task \<times> app" where
  "generateGif w i s = run_task 13 (new_task Generate w i s, s)"

definition loadFFmpeg :: "world \<Rightarrow> nat \<Rightarrow> app \<Rightarrow> task \<times> app" where
  "loadFFmpeg w i s = run_task 13 (new_task Preload w i s, s)"

text \<open>The handles that were minted and not revoked.\<close>

definition live :: "app \<Rightarrow> url list" where
  "live s = filter (\<lambda>u. u \<notin> set (revoked s)) (created s)"


subsection \<open>Several invocations\<close>


text \<open>
  Invocations that overlap. Between two turns of the event loop a click handler or the
  continuation of any suspended task may run. The promise of \<open>loadFFmpeg\<close> is settled by
  the time \<open>generateGif\<close> awaits it, so the continuation of \<open>await loadFFmpeg()\<close> runs as a
  microtask within the same turn: no click comes in between. Every other awaited call is
  answered by the network, the engine's worker or a file reader, in a later turn.
\<close>

definition turn :: "task \<Rightarrow> app \<Rightarrow> task \<times> app" where
  "turn t s =
     (let r = resume t s in if pc (fst r) = Await LoadFFmpeg then resume (fst r) (snd r) else r)"

text \<open>
  The button \<open>Create GIF\<close> is rendered with \<open>disabled={!file || generating}\<close> and
  \<open>Preload ffmpeg\<close> with \<open>disabled={loaded}\<close>; a click on a disabled button does nothing.
  A click on an enabled one invokes the handler, which runs its first turn at once.
\<close>

datatype action = ClickCreateGif world | ClickPreload world | Resume nat

fun perform :: "action \<Rightarrow> task list \<times> app \<Rightarrow> task list \<times> app" where
  "perform (ClickCreateGif w) (ts, s) =
     (if file' s = None \<or> generating s then (ts, s)
      else (let r = turn (new_task Generate w (length ts) s) s in (ts @ [fst r], snd r)))"
| "perform (ClickPreload w) (ts, s) =
     (if loaded s then (ts, s)
      else (let r = turn (new_task Preload w (length ts) s) s in (ts @ [fst r], snd r)))"
| "perform (Resume i) (ts, s) =
     (if i < length ts then (let r = turn (ts ! i) s in (ts[i := fst r], snd r))
      else (ts, s))"

fun perform_all :: "action list \<Rightarrow> task list \<times> app \<Rightarrow> task list \<times> app" where
  "perform_all [] x = x"
| "perform_all (a # as) x = perform_all as (perform a x)"

subsection \<open>Vocabulary of the properties\<close>

text \<open>
  The job states of the specification (its sections 3 and 4.5).
\<close>

datatype job_state =
    Validating | AwaitingEngine | WritingInput | GeneratingPalette | Rendering
  | ReadingOutput | CleaningUp | Done | Failed

text \<open>The state whose call a stage awaits.\<close>

fun stage_state :: "stage \<Rightarrow> job_state" where
  "stage_state CoreURL = AwaitingEngine"
| "stage_state WasmURL = AwaitingEngine"
| "stage_state Load = AwaitingEngine"
| "stage_state LoadFFmpeg = AwaitingEngine"
| "stage_state FetchFileSt = WritingInput"
| "stage_state WriteFileSt = WritingInput"
| "stage_state ExecPalette = GeneratingPalette"
| "stage_state ExecRender = Rendering"
| "stage_state ReadFileSt = ReadingOutput"
| "stage_state DeleteInput = CleaningUp"
| "stage_state DeletePalette = CleaningUp"
| "stage_state DeleteOutput = CleaningUp"



text \<open>The entries an invocation added to a log that was \<open>old\<close> before.\<close>

definition added :: "app \<Rightarrow> app \<Rightarrow> event list" where
  "added old new = map snd (drop (length (log old)) (log new))"



text \<open>
  The artifact names an invocation allocates (lines 91 to 93), whether the call awaited at
  a stage rejects, and the calls an invocation awaits, in order: the three of the engine
  load only when \<open>loaded\<close> was not set at the click. The promise of \<open>loadFFmpeg\<close> itself
  does not reject once those three have resolved.
\<close>

definition input_name :: "world \<Rightarrow> File \<Rightarrow> string" where
  "input_name w f =
     ''input-'' @ numberToString (shortest w) (Fin (of_int (now_input w))) @ ''-'' @ file_name f"

definition palette_name :: "world \<Rightarrow> string" where
  "palette_name w =
     ''palette-'' @ numberToString (shortest w) (Fin (of_int (now_palette w))) @ ''.png''"

definition output_name :: "world \<Rightarrow> string" where
  "output_name w =
     ''output-'' @ numberToString (shortest w) (Fin (of_int (now_output w))) @ ''.gif''"

fun rejects :: "world \<Rightarrow> app \<Rightarrow> File \<Rightarrow> stage \<Rightarrow> bool" where
  "rejects w c f CoreURL = (toBlobURL_ok w (CORE_BASE @ ''/ffmpeg-core.js'') = False)"
| "rejects w c f WasmURL = (toBlobURL_ok w (CORE_BASE @ ''/ffmpeg-core.wasm'') = False)"
| "rejects w c f Load = (load_ok w = False)"
| "rejects w c f LoadFFmpeg = False"
| "rejects w c f FetchFileSt = (fetchFile_ok w = False)"
| "rejects w c f WriteFileSt = (writeFile_ok w (input_name w f) = False)"
| "rejects w c f ExecPalette =
     (exec_result w (paletteArgs (shortest w) c (input_name w f) (palette_name w)) = None)"
| "rejects w c f ExecRender =
     (exec_result w
        (renderArgs (shortest w) c (input_name w f) (palette_name w) (output_name w)) = None)"
| "rejects w c f ReadFileSt = (readFile_result w (output_name w) = None)"
| "rejects w c f DeleteInput = (deleteFile_ok w (input_name w f) = False)"
| "rejects w c f DeletePalette = (deleteFile_ok w (palette_name w) = False)"
| "rejects w c f DeleteOutput = (deleteFile_ok w (output_name w) = False)"

definition awaited :: "app \<Rightarrow> stage list" where
  "awaited c =
     (if loaded c then [] else [CoreURL, WasmURL, Load]) @
     [LoadFFmpeg, FetchFileSt, WriteFileSt, ExecPalette, ExecRender, ReadFileSt,
      DeleteInput, DeletePalette, DeleteOutput]"

definition first_rejection :: "world \<Rightarrow> app \<Rightarrow> File \<Rightarrow> stage option" where
  "first_rejection w c f = find (rejects w c f) (awaited c)"

text \<open>The calls still to be awaited by an invocation suspended at a stage, that one first.\<close>

definition from_stage :: "stage \<Rightarrow> stage list" where
  "from_stage st =
     dropWhile (\<lambda>x. x \<noteq> st)
       [CoreURL, WasmURL, Load, LoadFFmpeg, FetchFileSt, WriteFileSt, ExecPalette, ExecRender,
        ReadFileSt, DeleteInput, DeletePalette, DeleteOutput]"

text \<open>The task has passed lines 132 to 138: a new handle was minted and stored.\<close>

fun published :: "pc \<Rightarrow> bool" where
  "published (Await st) = (stage_state st = CleaningUp)"
| "published (Caught st) = (stage_state st = CleaningUp)"
| "published Completed = True"
| "published _ = False"


text \<open>The stages after \<open>await loadFFmpeg()\<close> has returned.\<close>

fun late :: "stage \<Rightarrow> bool" where
  "late CoreURL = False"
| "late WasmURL = False"
| "late Load = False"
| "late LoadFFmpeg = False"
| "late _ = True"

text \<open>
  What the button guard maintains from a moment on at which the engine is loaded and every
  task is at rest, for the tasks \<open>ts\<close> and the log entries from position \<open>n\<close> on: the tags
  of the entries never decrease and are below the number of tasks; and only the last task
  may be in flight, then as invocation number \<open>length ts - 1\<close> of \<open>generateGif\<close>, at a stage
  after the engine load, with \<open>generating\<close> set.
\<close>

definition one_job_at_a_time :: "nat \<Rightarrow> task list \<times> app \<Rightarrow> bool" where
  "one_job_at_a_time n x =
     (case x of (ts, s) \<Rightarrow>
        loaded s \<and> n \<le> length (log s) \<and> sorted (map fst (drop n (log s))) \<and>
        (\<forall>e \<in> set (drop n (log s)). fst e < length ts) \<and>
        (\<forall>i < length ts.
           terminal (pc (ts ! i)) \<or>
           Suc i = length ts \<and> handler (ts ! i) = Generate \<and> tid (ts ! i) = i \<and>
           generating s \<and> (\<exists>st. pc (ts ! i) = Await st \<and> late st)))"

text \<open>
  The argument lists of the \<open>ffmpeg.exec\<close> calls among some events, in order, and how many
  of these calls an invocation has made when it is at a given point.
\<close>

fun exec_args :: "event \<Rightarrow> string list list" where
  "exec_args (Exec a) = [a]"
| "exec_args _ = []"

definition execs :: "event list \<Rightarrow> string list list" where
  "execs l = concat (map exec_args l)"

fun stage_execs :: "stage \<Rightarrow> nat" where
  "stage_execs CoreURL = 0"
| "stage_execs WasmURL = 0"
| "stage_execs Load = 0"
| "stage_execs LoadFFmpeg = 0"
| "stage_execs FetchFileSt = 0"
| "stage_execs WriteFileSt = 0"
| "stage_execs ExecPalette = 1"
| "stage_execs _ = 2"

fun issued :: "pc \<Rightarrow> nat" where
  "issued Start = 0"
| "issued (Await st) = stage_execs st"
| "issued ReturnedNoFile = 0"
| "issued Completed = 2"
| "issued (Caught st) = stage_execs st"
| "issued (Rejected st) = stage_execs st"

fun is_delete :: "event \<Rightarrow> bool" where
  "is_delete (DeleteFile _) = True"
| "is_delete _ = False"

fun is_create :: "event \<Rightarrow> bool" where
  "is_create (CreateObjectURL _ _ _) = True"
| "is_create _ = False"

text \<open>Each invocation's entries form one block of the log: no two invocations interleave.\<close>

definition serialized :: "(nat \<times> event) list \<Rightarrow> bool" where
  "serialized l = distinct (remdups_adj (map fst l))"

text \<open>
  The rendering of a time value with two decimals: the integer part of the rounded
  hundredths, a point, two digits.
\<close>

definition fixed2 :: "rat \<Rightarrow> string" where
  "fixed2 x =
     (let n = nat \<lfloor>x * 100 + 1 / 2\<rfloor>
      in showNat (n div 100) @ ''.'' @ [digit_char (n div 10 mod 10), digit_char (n mod 10)])"

definition is_digit :: "char \<Rightarrow> bool" where
  "is_digit ch = (ch \<in> set ''0123456789'')"

definition two_decimals :: "string \<Rightarrow> bool" where
  "two_decimals str =
     (case rev str of
        d2 # d1 # p # ip \<Rightarrow>
          is_digit d2 \<and> is_digit d1 \<and> p = CHR ''.'' \<and> ip \<noteq> [] \<and> list_all is_digit ip
      | _ \<Rightarrow> False)"

text \<open>
  An instance of the parameter \<open>shortest\<close> that agrees with ECMAScript at \<open>10^21\<close>, whose
  \<open>Number::toString\<close> is \<open>1e+21\<close>.
\<close>

definition shortest_1e21 :: "rat \<Rightarrow> string" where
  "shortest_1e21 r = ''1e+21''"

subsection \<open>Sample worlds and states\<close>

definition clip :: File where
  "clip = \<lparr>file_name = ''clip.mp4'', file_bytes = [0, 0, 0, 24]\<rparr>"

text \<open>
  Every call resolves, both passes with exit code \<open>0\<close>; the rendered file starts with the
  bytes of \<open>GIF89a\<close>.
\<close>

definition good_world :: world where
  "good_world =
     \<lparr>shortest = shortest_1e21, now_input = 1700000000000, now_palette = 1700000000000,
      now_output = 1700000000001,
      toBlobURL_ok = (\<lambda>_. True), load_ok = True, fetchFile_ok = True,
      writeFile_ok = (\<lambda>_. True), exec_result = (\<lambda>_. Some 0),
      readFile_result = (\<lambda>_. Some (Uint8Array [71, 73, 70, 56, 57, 97])),
      deleteFile_ok = (\<lambda>_. True)\<rparr>"

definition with_clip :: app where
  "with_clip = initial_app\<lparr>file' := Some clip\<rparr>"



text \<open>
  The palette pass rejects; the render pass rejects; no deletion resolves; the rendered
  file is empty.
\<close>

definition palette_fails :: world where
  "palette_fails =
     good_world\<lparr>exec_result := (\<lambda>args. if args ! 7 = ''-i'' then Some 0 else None)\<rparr>"

definition render_fails :: world where
  "render_fails =
     good_world\<lparr>exec_result := (\<lambda>args. if args ! 7 = ''-frames:v'' then Some 0 else None)\<rparr>"

definition delete_fails :: world where
  "delete_fails = good_world\<lparr>deleteFile_ok := (\<lambda>_. False)\<rparr>"

definition empty_output :: world where
  "empty_output = good_world\<lparr>readFile_result := (\<lambda>_. Some (Uint8Array []))\<rparr>"

text \<open>A session in which one GIF was made: the engine is loaded and handle \<open>0\<close> is live.\<close>

definition with_result :: app where
  "with_result =
     with_clip\<lparr>loaded := True, status := ''Done. GIF size 0.00 MB'', gifUrl := Some 0,
       created := [0]\<rparr>"

text \<open>The names the sample worlds give to the artifacts of \<open>clip\<close>, and what a load logs.\<close>

definition clip_input :: string where
  "clip_input = ''input-1700000000000-clip.mp4''"

definition clip_palette :: string where
  "clip_palette = ''palette-1700000000000.png''"

definition clip_output :: string where
  "clip_output = ''output-1700000000001.gif''"

definition load_events :: "nat \<Rightarrow> (nat \<times> event) list" where
  "load_events i =
     [(i, EngineOnProgress), (i, ToBlobURL (CORE_BASE @ ''/ffmpeg-core.js'')),
      (i, ToBlobURL (CORE_BASE @ ''/ffmpeg-core.wasm'')), (i, EngineLoad)]"

definition clip_task :: "world \<Rightarrow> nat \<Rightarrow> app \<Rightarrow> pc \<Rightarrow> task" where
  "clip_task w i s p =
     (new_task Generate w i s)
       \<lparr>pc := p, inputName := clip_input, paletteName := clip_palette,
        outputName := clip_output\<rparr>"

text \<open>A world whose clock reads five milliseconds later, and the names it gives.\<close>

definition later_world :: world where
  "later_world =
     good_world\<lparr>now_input := 1700000000005, now_palette := 1700000000005,
       now_output := 1700000000006\<rparr>"

definition later_input :: string where
  "later_input = ''input-1700000000005-clip.mp4''"

definition later_palette :: string where
  "later_palette = ''palette-1700000000005.png''"

definition later_output :: string where
  "later_output = ''output-1700000000006.gif''"

text \<open>Two clicks on \<open>Preload ffmpeg\<close> before the first load has resolved.\<close>

definition double_preload :: "action list" where
  "double_preload =
     [ClickPreload good_world, ClickPreload good_world,
      Resume 0, Resume 1, Resume 0, Resume 1, Resume 0, Resume 1]"

text \<open>
  Two clicks on \<open>Create GIF\<close> while the engine is not loaded yet; the two invocations then
  advance in turns until both are at rest.
\<close>

definition double_click :: "action list" where
  "double_click =
     [ClickCreateGif good_world, ClickCreateGif later_world,
      Resume 0, Resume 1, Resume 0, Resume 1, Resume 0, Resume 1, Resume 0, Resume 1,
      Resume 0, Resume 1, Resume 0, Resume 1, Resume 0, Resume 1, Resume 0, Resume 1,
      Resume 0, Resume 1, Resume 0, Resume 1, Resume 0, Resume 1]"

text \<open>
  With the engine loaded and the invocation that made the first GIF at rest: a click, clicks
  while that job is in flight, and a click after it has come to rest.
\<close>

definition rested :: "task list" where
  "rested = [clip_task good_world 0 with_clip Completed]"

definition clicks_while_busy :: "action list" where
  "clicks_while_busy =
     [ClickCreateGif good_world, ClickCreateGif later_world,
      Resume 1, Resume 1, Resume 1, Resume 1, ClickCreateGif later_world,
      Resume 1, Resume 1, Resume 1, Resume 1,
      ClickCreateGif later_world,
      Resume 2, Resume 2, Resume 2, Resume 2, Resume 2, Resume 2, Resume 2, Resume 2]"

text \<open>Both passes resolve with exit code \<open>1\<close>.\<close>

definition exit_code_1 :: world where
  "exit_code_1 = good_world\<lparr>exec_result := (\<lambda>_. Some 1)\<rparr>"


subsection \<open>A bound on the segments left\<close>

fun stage_rank :: "stage \<Rightarrow> nat" where
  "stage_rank CoreURL = 12"
| "stage_rank WasmURL = 11"
| "stage_rank Load = 10"
| "stage_rank LoadFFmpeg = 9"
| "stage_rank FetchFileSt = 8"
| "stage_rank WriteFileSt = 7"
| "stage_rank ExecPalette = 6"
| "stage_rank ExecRender = 5"
| "stage_rank ReadFileSt = 4"
| "stage_rank DeleteInput = 3"
| "stage_rank DeletePalette = 2"
| "stage_rank DeleteOutput = 1"

fun remaining :: "pc \<Rightarrow> nat" where
  "remaining Start = 13"
| "remaining (Await st) = stage_rank st"
| "remaining _ = 0"

section \<open>Number rendering\<close>

lemma floor_rat_numeral: "\<lfloor>(numeral a :: rat) / numeral b\<rfloor> = numeral a div numeral b"
  using floor_divide_of_int_eq [of "numeral a" "numeral b", where ?'a = rat] by simp

lemma showNat_digit: "n < 10 \<Longrightarrow> showNat n = [digit_char n]"
  by (simp add: showNat.simps)

lemma showNat_step: "10 \<le> n \<Longrightarrow> showNat n = showNat (n div 10) @ [digit_char (n mod 10)]"
  by (subst showNat.simps) simp

lemma showNat_not_Nil: "showNat n \<noteq> []"
  by (subst showNat.simps) simp

lemma length_showNat_2: "10 \<le> n \<Longrightarrow> n < 100 \<Longrightarrow> length (showNat n) = 2"
  by (simp add: showNat_step showNat_digit)

lemma length_showNat_3: "100 \<le> n \<Longrightarrow> 2 < length (showNat n)"
proof -
  assume "100 \<le> n"
  then have "10 \<le> n" "10 \<le> n div 10" by auto
  then have "showNat n = showNat (n div 10 div 10) @ [digit_char (n div 10 mod 10), digit_char (n mod 10)]"
    by (simp add: showNat_step)
  then show ?thesis
    using showNat_not_Nil [of "n div 10 div 10"] by (cases "showNat (n div 10 div 10)") auto
qed

lemma fixed2_unfold:
  "fixed2 x =
     showNat (nat \<lfloor>x * 100 + 1 / 2\<rfloor> div 100) @ ''.'' @
     [digit_char (nat \<lfloor>x * 100 + 1 / 2\<rfloor> div 10 mod 10), digit_char (nat \<lfloor>x * 100 + 1 / 2\<rfloor> mod 10)]"
  by (simp add: fixed2_def Let_def)

lemma pad_small:
  assumes "n < 10"
  shows "(let m = showNat n; k = length m;
              m' = (if k \<le> 2 then replicate (3 - k) (CHR ''0'') @ m else m);
              k' = (if k \<le> 2 then 3 else k)
          in take (k' - 2) m' @ ''.'' @ drop (k' - 2) m') =
         showNat (n div 100) @ ''.'' @ [digit_char (n div 10 mod 10), digit_char (n mod 10)]"
  using assms by (simp add: showNat_digit Let_def digit_char_def numeral_3_eq_3)

lemma pad_medium:
  assumes "10 \<le> n" "n < 100"
  shows "(let m = showNat n; k = length m;
              m' = (if k \<le> 2 then replicate (3 - k) (CHR ''0'') @ m else m);
              k' = (if k \<le> 2 then 3 else k)
          in take (k' - 2) m' @ ''.'' @ drop (k' - 2) m') =
         showNat (n div 100) @ ''.'' @ [digit_char (n div 10 mod 10), digit_char (n mod 10)]"
proof -
  have "n div 10 < 10" using assms by simp
  then have m: "showNat n = [digit_char (n div 10), digit_char (n mod 10)]"
    using assms by (simp add: showNat_step showNat_digit)
  have z: "showNat (n div 100) = ''0''" "showNat 0 = ''0''"
    using assms by (simp_all add: showNat_digit digit_char_def)
  show ?thesis
    using \<open>n div 10 < 10\<close> by (simp add: m z Let_def)
qed

lemma pad_large:
  assumes "100 \<le> n"
  shows "(let m = showNat n; k = length m;
              m' = (if k \<le> 2 then replicate (3 - k) (CHR ''0'') @ m else m);
              k' = (if k \<le> 2 then 3 else k)
          in take (k' - 2) m' @ ''.'' @ drop (k' - 2) m') =
         showNat (n div 100) @ ''.'' @ [digit_char (n div 10 mod 10), digit_char (n mod 10)]"
proof -
  have "10 \<le> n" "10 \<le> n div 10" using assms by auto
  then have m: "showNat n = showNat (n div 100) @ [digit_char (n div 10 mod 10), digit_char (n mod 10)]"
    by (simp add: showNat_step div_mult2_eq [symmetric])
  have l: "\<not> length (showNat n) \<le> 2"
    using length_showNat_3 [OF assms] by simp
  show ?thesis
    unfolding Let_def using l by (simp add: m)
qed

lemma pad_digits:
  "(let m = showNat n; k = length m;
        m' = (if k \<le> 2 then replicate (3 - k) (CHR ''0'') @ m else m);
        k' = (if k \<le> 2 then 3 else k)
    in take (k' - 2) m' @ ''.'' @ drop (k' - 2) m') =
   showNat (n div 100) @ ''.'' @ [digit_char (n div 10 mod 10), digit_char (n mod 10)]"
proof -
  consider "n < 10" | "10 \<le> n" "n < 100" | "100 \<le> n" by linarith
  then show ?thesis
    by cases (rule pad_small pad_medium pad_large; assumption)+
qed

lemma toFixed_nonneg:
  assumes "0 \<le> r" "r < 10 ^ 21"
  shows "toFixed sh (Fin r) = fixed2 r"
proof -
  have "toFixed sh (Fin r) =
     (let m = showNat (nat \<lfloor>r * 100 + 1 / 2\<rfloor>); k = length m;
        m' = (if k \<le> 2 then replicate (3 - k) (CHR ''0'') @ m else m);
        k' = (if k \<le> 2 then 3 else k)
      in take (k' - 2) m' @ ''.'' @ drop (k' - 2) m')"
    using assms by (simp add: toFixed_def Let_def)
  then show ?thesis
    by (simp only: pad_digits fixed2_unfold)
qed

lemma digit_char_is_digit: "d < 10 \<Longrightarrow> is_digit (digit_char d)"
proof -
  assume "d < 10"
  then have "d \<in> {0, 1, 2, 3, 4, 5, 6, 7, 8, 9}" by auto
  then show ?thesis
    by (auto simp: is_digit_def digit_char_def)
qed

lemma showNat_digits: "list_all is_digit (showNat n)"
proof (induction n rule: showNat.induct)
  case (1 n)
  show ?case
  proof (cases "n < 10")
    case True
    then show ?thesis by (simp add: showNat_digit digit_char_is_digit)
  next
    case False
    then show ?thesis
      using 1 by (simp add: showNat_step digit_char_is_digit)
  qed
qed

lemma two_decimals_fixed2: "two_decimals (fixed2 x)"
  by (simp add: two_decimals_def fixed2_unfold showNat_not_Nil showNat_digits digit_char_is_digit)

lemma fixed2_zero: "fixed2 0 = ''0.00''"
  by (simp add: fixed2_unfold showNat_digit digit_char_def)

lemma fixed2_lit_0_2: "fixed2 lit_0_2 = ''0.20''"
  by (simp add: fixed2_unfold lit_0_2_def floor_rat_numeral showNat_digit digit_char_def)

lemma str_small: "numberToString sh (Fin 2) = ''2''" "numberToString sh (Fin 0) = ''0''"
  by (simp_all add: numberToString_def showNat_digit digit_char_def)

lemma str_256: "numberToString sh (Fin 256) = ''256''"
  by (simp add: numberToString_def showNat.simps digit_char_def)

lemma not_two_decimals_exp: "\<not> two_decimals ''1e+21''"
  by (simp add: two_decimals_def is_digit_def)

lemma toFixed_1e21: "toFixed shortest_1e21 (Fin (10 ^ 21)) = ''1e+21''"
  by (simp add: toFixed_def numberToString_def shortest_1e21_def)

lemmas builder_defs =
  paletteArgs_def renderArgs_def trimArgs_def paletteFilter_def renderFilter_def
  scaleAndRate_def speedFilter_def

lemma toFixed_2: "toFixed sh (Fin 2) = ''2.00''"
  by (simp add: toFixed_nonneg fixed2_unfold floor_rat_numeral showNat_digit digit_char_def)

lemma toFixed_5: "toFixed sh (Fin (max lit_0_2 5)) = ''5.00''"
  by (simp add: lit_0_2_def toFixed_nonneg fixed2_unfold floor_rat_numeral showNat_digit
      digit_char_def)

lemma str_15: "numberToString sh (Fin 15) = ''15''"
  by (simp add: numberToString_def showNat.simps digit_char_def)

lemma str_960: "numberToString sh (Fin 960) = ''960''"
  by (simp add: numberToString_def showNat.simps digit_char_def)

section \<open>The filter graph builder\<close>

text \<open>
  C3. For the settings \<open>{fps: 15, width: 960, colors: 256, dither: 'sierra2_4a'}\<close>, the trim
  window \<open>{startSec: 2, durationSec: 5, speed: 1}\<close> and \<open>loopCount = 0\<close>, whatever the other
  state cells and the artifact names are: the palette-pass list holds the adjacent tokens
  \<open>-ss 2.00\<close> and \<open>-t 5.00\<close> and its filter holds \<open>palettegen=max_colors=256\<close>; the render-pass
  list holds the adjacent tokens \<open>-loop 0\<close> and its filter holds \<open>dither=sierra2_4a\<close>. Both
  lists are given in full.
\<close>

theorem filter_graph_example:
  "let c' = c\<lparr>fps := Fin 15, width := Fin 960, colors := Fin 256, dither := D_sierra2_4a,
               startSec := Fin 2, durationSec := Fin 5, speed := Fin 1, loopCount := Fin 0\<rparr>
   in paletteArgs sh c' inp pal =
        [''-y'', ''-i'', inp, ''-ss'', ''2.00'', ''-t'', ''5.00'', ''-frames:v'', ''1'',
         ''-update'', ''1'', ''-vf'',
         ''fps=15,scale=960:-1:flags=lanczos,palettegen=max_colors=256:stats_mode=full'', pal]
    \<and> renderArgs sh c' inp pal out =
        [''-y'', ''-i'', inp, ''-ss'', ''2.00'', ''-t'', ''5.00'', ''-i'', pal, ''-lavfi'',
         ''fps=15,scale=960:-1:flags=lanczos[x];[x][1:v]paletteuse=dither=sierra2_4a:diff_mode=rectangle'',
         ''-loop'', ''0'', out]
    \<and> sublist [''-ss'', ''2.00''] (paletteArgs sh c' inp pal)
    \<and> sublist [''-t'', ''5.00''] (paletteArgs sh c' inp pal)
    \<and> sublist ''palettegen=max_colors=256'' (paletteArgs sh c' inp pal ! 12)
    \<and> sublist ''dither=sierra2_4a'' (renderArgs sh c' inp pal out ! 10)
    \<and> sublist [''-loop'', ''0''] (renderArgs sh c' inp pal out)"
proof -
  define c' where
    "c' = c\<lparr>fps := Fin 15, width := Fin 960, colors := Fin 256, dither := D_sierra2_4a,
             startSec := Fin 2, durationSec := Fin 5, speed := Fin 1, loopCount := Fin 0\<rparr>"
  have p: "paletteArgs sh c' inp pal =
           [''-y'', ''-i'', inp, ''-ss'', ''2.00'', ''-t'', ''5.00'', ''-frames:v'', ''1'',
            ''-update'', ''1'', ''-vf'',
            ''fps=15,scale=960:-1:flags=lanczos,palettegen=max_colors=256:stats_mode=full'', pal]"
    by (simp add: c'_def builder_defs toFixed_2 toFixed_5 str_15 str_960 str_256)
  have r: "renderArgs sh c' inp pal out =
           [''-y'', ''-i'', inp, ''-ss'', ''2.00'', ''-t'', ''5.00'', ''-i'', pal, ''-lavfi'',
            ''fps=15,scale=960:-1:flags=lanczos[x];[x][1:v]paletteuse=dither=sierra2_4a:diff_mode=rectangle'',
            ''-loop'', ''0'', out]"
    by (simp add: c'_def builder_defs toFixed_2 toFixed_5 str_15 str_960 str_small)
  have p1: "sublist [''-ss'', ''2.00''] (paletteArgs sh c' inp pal)"
    using sublist_appendI [of "[''-ss'', ''2.00'']" "[''-y'', ''-i'', inp]"] by (simp add: p)
  have p2: "sublist [''-t'', ''5.00''] (paletteArgs sh c' inp pal)"
    using sublist_appendI [of "[''-t'', ''5.00'']" "[''-y'', ''-i'', inp, ''-ss'', ''2.00'']"]
    by (simp add: p)
  have p3: "sublist ''palettegen=max_colors=256'' (paletteArgs sh c' inp pal ! 12)"
    using sublist_appendI [of "''palettegen=max_colors=256''"
        "''fps=15,scale=960:-1:flags=lanczos,''" "'':stats_mode=full''"]
    by (simp add: p)
  have r1: "sublist ''dither=sierra2_4a'' (renderArgs sh c' inp pal out ! 10)"
    using sublist_appendI [of "''dither=sierra2_4a''"
        "''fps=15,scale=960:-1:flags=lanczos[x];[x][1:v]paletteuse=''" "'':diff_mode=rectangle''"]
    by (simp add: r)
  have r2: "sublist [''-loop'', ''0''] (renderArgs sh c' inp pal out)"
    using sublist_appendI [of "[''-loop'', ''0'']" "take 11 (renderArgs sh c' inp pal out)" "[out]"]
    by (simp add: r)
  from p r p1 p2 p3 r1 r2 show ?thesis
    unfolding Let_def c'_def by (simp only: simp_thms)
qed


text \<open>
  C4, as amended. For finite numeric inputs whose floored time values stay below \<open>10^21\<close>:
  the palette filter carries \<open>max_colors\<close> of \<open>colors\<close> clamped into \<open>[2, 256]\<close> (\<open>256\<close> for
  any input from \<open>256\<close> up, such as \<open>500\<close>; \<open>2\<close> for any input up to \<open>2\<close>, such as \<open>0\<close>); the
  value after \<open>-ss\<close> is \<open>startSec\<close> floored at \<open>0\<close> and the value after \<open>-t\<close> is
  \<open>durationSec\<close> floored at \<open>0.2\<close>, each written with exactly two decimals (\<open>0.00\<close> for a
  start of \<open>0\<close> or less, \<open>0.20\<close> for a duration of \<open>0.2\<close> or less, such as \<open>0.05\<close>).
\<close>

theorem numeric_inputs_sanitized:
  "colors c = Fin k \<Longrightarrow> startSec c = Fin a \<Longrightarrow> durationSec c = Fin d \<Longrightarrow>
   a < 10 ^ 21 \<Longrightarrow> d < 10 ^ 21 \<Longrightarrow>
     paletteFilter sh c =
       scaleAndRate sh c @ '',palettegen=max_colors='' @
       numberToString sh (Fin (max 2 (min 256 k))) @ '':stats_mode=full''
   \<and> 2 \<le> max 2 (min 256 k) \<and> max 2 (min 256 k) \<le> 256
   \<and> (256 \<le> k \<longrightarrow> numberToString sh (Fin (max 2 (min 256 k))) = ''256'')
   \<and> (k \<le> 2 \<longrightarrow> numberToString sh (Fin (max 2 (min 256 k))) = ''2'')
   \<and> trimArgs sh c = [''-ss'', fixed2 (max 0 a), ''-t'', fixed2 (max lit_0_2 d)]
   \<and> two_decimals (fixed2 (max 0 a)) \<and> two_decimals (fixed2 (max lit_0_2 d))
   \<and> (a \<le> 0 \<longrightarrow> fixed2 (max 0 a) = ''0.00'')
   \<and> (d \<le> lit_0_2 \<longrightarrow> fixed2 (max lit_0_2 d) = ''0.20'')"
proof -
  assume k: "colors c = Fin k" and a: "startSec c = Fin a" and d: "durationSec c = Fin d"
    and a21: "a < 10 ^ 21" and d21: "d < 10 ^ 21"
  have lit: "0 \<le> lit_0_2" "lit_0_2 < 10 ^ 21"
    by (simp_all add: lit_0_2_def)
  have filter: "paletteFilter sh c =
       scaleAndRate sh c @ '',palettegen=max_colors='' @
       numberToString sh (Fin (max 2 (min 256 k))) @ '':stats_mode=full''"
    by (simp add: paletteFilter_def k)
  have hi: "256 \<le> k \<longrightarrow> numberToString sh (Fin (max 2 (min 256 k))) = ''256''"
    by (simp add: str_256)
  have lo: "k \<le> 2 \<longrightarrow> numberToString sh (Fin (max 2 (min 256 k))) = ''2''"
    by (simp add: str_small max_absorb1 min_absorb2)
  have ss: "toFixed sh (Math_max (Fin 0) (startSec c)) = fixed2 (max 0 a)"
    using a21 by (simp add: a toFixed_nonneg)
  have tt: "toFixed sh (Math_max (Fin lit_0_2) (durationSec c)) = fixed2 (max lit_0_2 d)"
    using d21 lit by (simp add: d toFixed_nonneg)
  have trim: "trimArgs sh c = [''-ss'', fixed2 (max 0 a), ''-t'', fixed2 (max lit_0_2 d)]"
    by (simp add: trimArgs_def ss tt)
  have z: "a \<le> 0 \<longrightarrow> fixed2 (max 0 a) = ''0.00''"
    by (simp add: max_absorb1 fixed2_zero)
  have f: "d \<le> lit_0_2 \<longrightarrow> fixed2 (max lit_0_2 d) = ''0.20''"
    by (simp add: max_absorb1 fixed2_lit_0_2)
  from filter hi lo trim z f show ?thesis
    by (simp only: two_decimals_fixed2 simp_thms) simp
qed

theorem numeric_inputs_sanitized_witness:
  "colors (initial_app\<lparr>colors := Fin 500, startSec := Fin (- 3), durationSec := Fin (1 / 20)\<rparr>) =
     Fin 500
   \<and> (- 3 :: rat) < 10 ^ 21 \<and> (1 / 20 :: rat) < 10 ^ 21 \<and> (256 :: rat) \<le> 500
   \<and> (- 3 :: rat) \<le> 0 \<and> (1 / 20 :: rat) \<le> lit_0_2
   \<and> paletteFilter shortest_1e21
     (initial_app\<lparr>colors := Fin 500, startSec := Fin (- 3), durationSec := Fin (1 / 20)\<rparr>) =
     ''fps=15,scale=960:-1:flags=lanczos,palettegen=max_colors=256:stats_mode=full''
   \<and> trimArgs shortest_1e21
     (initial_app\<lparr>colors := Fin 500, startSec := Fin (- 3), durationSec := Fin (1 / 20)\<rparr>) =
     [''-ss'', ''0.00'', ''-t'', ''0.20'']"
  using numeric_inputs_sanitized
    [of "initial_app\<lparr>colors := Fin 500, startSec := Fin (- 3), durationSec := Fin (1 / 20)\<rparr>"
        500 "- 3" "1 / 20" shortest_1e21]
  by (simp add: lit_0_2_def scaleAndRate_def speedFilter_def initial_app_def str_15 str_960)

text \<open>
  C4 as stated fails: a start of \<open>10^21\<close> seconds, which the unbounded \<open>Start (sec)\<close> field
  accepts, reaches the engine as \<open>-ss 1e+21\<close>, since \<open>toFixed\<close> falls back to
  \<open>Number::toString\<close> from \<open>10^21\<close> on.
\<close>

theorem two_decimals_counterexample:
  "trimArgs shortest_1e21 (initial_app\<lparr>startSec := Fin (10 ^ 21)\<rparr>) =
     [''-ss'', ''1e+21'', ''-t'', ''5.00'']
   \<and> \<not> two_decimals ''1e+21''"
  using toFixed_1e21
  by (simp add: trimArgs_def initial_app_def toFixed_5 not_two_decimals_exp)

section \<open>Running a task\<close>

lemma run_task_numeral:
  "run_task (numeral k) (t, s) =
     (if terminal (pc t) then (t, s) else run_task (pred_numeral k) (resume t s))"
  by (simp add: numeral_eq_Suc)

lemma run_task_terminal: "terminal (pc t) \<Longrightarrow> run_task n (t, s) = (t, s)"
  by (cases n) simp_all

lemma run_task_invariant:
  assumes "P x" and "\<And>t s. P (t, s) \<Longrightarrow> \<not> terminal (pc t) \<Longrightarrow> P (resume t s)"
  shows "P (run_task n x)"
  using assms(1)
proof (induction n arbitrary: x)
  case 0
  then show ?case by simp
next
  case (Suc n)
  obtain t s where x: "x = (t, s)" by (cases x)
  show ?case
  proof (cases "terminal (pc t)")
    case True
    with Suc.prems x show ?thesis by simp
  next
    case False
    with Suc.prems x have "P (resume t s)" by (simp add: assms(2))
    then have "P (run_task n (resume t s))" by (rule Suc.IH)
    with False x show ?thesis by simp
  qed
qed

lemmas segment_defs =
  resume_def throw_def loadFFmpeg_enter_def loadFFmpeg_return_def publish_def emit_def

lemma resume_decreases:
  "\<not> terminal (pc t) \<Longrightarrow> remaining (pc (fst (resume t s))) < remaining (pc t)"
  apply (cases "pc t")
  subgoal by (simp add: segment_defs Let_def split: handler.split)
  subgoal for st by (cases st) (simp_all add: segment_defs Let_def split: handler.split option.split)
  by simp_all

lemma stage_rank_pos: "stage_rank st \<noteq> 0"
  by (cases st) simp_all

lemma run_task_rests:
  "remaining (pc t) \<le> n \<Longrightarrow> terminal (pc (fst (run_task n (t, s))))"
proof (induction n arbitrary: t s)
  case 0
  then show ?case
    by (cases "pc t") (simp_all add: stage_rank_pos)
next
  case (Suc n)
  show ?case
  proof (cases "terminal (pc t)")
    case True
    then show ?thesis by simp
  next
    case False
    obtain t' s' where r: "resume t s = (t', s')" by (cases "resume t s")
    have "remaining (pc t') < remaining (pc t)"
      using resume_decreases [OF False, of s] r by simp
    with Suc.prems have "remaining (pc t') \<le> n" by simp
    then have "terminal (pc (fst (run_task n (t', s'))))" by (rule Suc.IH)
    with False r show ?thesis by simp
  qed
qed

lemma generateGif_rests: "terminal (pc (fst (generateGif w i s)))"
  unfolding generateGif_def by (rule run_task_rests) (simp add: new_task_def)

section \<open>Object URLs across one invocation\<close>

lemma generateGif_handles:
  "handler (fst (generateGif w i s)) = Generate \<and> cap (fst (generateGif w i s)) = s \<and>
   env (fst (generateGif w i s)) = w \<and> tid (fst (generateGif w i s)) = i \<and>
   (if published (pc (fst (generateGif w i s)))
    then created (snd (generateGif w i s)) = created s @ [length (created s)] \<and>
         revoked (snd (generateGif w i s)) =
           revoked s @ (case gifUrl s of None \<Rightarrow> [] | Some u \<Rightarrow> [u]) \<and>
         gifUrl (snd (generateGif w i s)) = Some (length (created s)) \<and>
         readFile_result w (outputName (fst (generateGif w i s))) \<noteq> None
    else created (snd (generateGif w i s)) = created s \<and>
         revoked (snd (generateGif w i s)) = revoked s \<and>
         gifUrl (snd (generateGif w i s)) = gifUrl s)"
proof -
  let ?P = "\<lambda>x. handler (fst x) = Generate \<and> cap (fst x) = s \<and> env (fst x) = w \<and> tid (fst x) = i \<and>
     (if published (pc (fst x))
      then created (snd x) = created s @ [length (created s)] \<and>
           revoked (snd x) = revoked s @ (case gifUrl s of None \<Rightarrow> [] | Some u \<Rightarrow> [u]) \<and>
           gifUrl (snd x) = Some (length (created s)) \<and>
           readFile_result w (outputName (fst x)) \<noteq> None
      else created (snd x) = created s \<and> revoked (snd x) = revoked s \<and> gifUrl (snd x) = gifUrl s)"
  have init: "?P (new_task Generate w i s, s)"
    by (simp add: new_task_def)
  have step: "?P (resume t s')" if "?P (t, s')" "\<not> terminal (pc t)" for t s'
  proof (cases "pc t")
    case Start
    with that show ?thesis
      by (simp add: segment_defs Let_def)
  next
    case (Await st)
    with that show ?thesis
      by (cases st) (simp_all add: segment_defs Let_def split: option.split)
  qed (use that in simp_all)
  have "?P (run_task 13 (new_task Generate w i s, s))"
    using init step by (rule run_task_invariant [where P = ?P])
  then show ?thesis
    by (simp add: generateGif_def)
qed

section \<open>Sample runs\<close>

lemmas sample_defs =
  good_world_def with_clip_def with_result_def initial_app_def clip_def CORE_BASE_def
  palette_fails_def render_fails_def delete_fails_def empty_output_def exit_code_1_def
  clip_input_def clip_palette_def clip_output_def load_events_def clip_task_def

lemma str_stamp:
  "numberToString sh (Fin 1700000000000) = ''1700000000000''"
  "numberToString sh (Fin 1700000000001) = ''1700000000001''"
  by (simp_all add: numberToString_def showNat.simps digit_char_def)

lemma toFixed_0: "toFixed sh (Fin 0) = ''0.00''"
  by (simp add: toFixed_nonneg fixed2_zero)

lemma toFixed_tiny:
  assumes "0 \<le> r" "r < 1 / 200"
  shows "toFixed sh (Fin r) = ''0.00''"
proof -
  have "\<lfloor>r * 100 + 1 / 2\<rfloor> = 0"
    using assms by (simp add: floor_eq_iff)
  then have "fixed2 r = ''0.00''"
    by (simp add: fixed2_unfold showNat_digit digit_char_def)
  moreover have "r < 10 ^ 21"
    using assms by simp
  ultimately show ?thesis
    using assms by (simp add: toFixed_nonneg)
qed

lemmas run_defs =
  generateGif_def run_task_numeral new_task_def segment_defs Let_def builder_defs
  str_stamp str_15 str_960 str_256 str_small toFixed_0 toFixed_5 toFixed_tiny

lemma run_good_world:
  "generateGif good_world 0 with_clip =
     (clip_task good_world 0 with_clip Completed,
      with_clip
        \<lparr>loaded := True, generating := False, progress := Fin 0,
         status := ''Done. GIF size 0.00 MB'', gifUrl := Some 0, created := [0],
         log := load_events 0 @
           [(0, FetchFile ''clip.mp4''),
            (0, WriteFile clip_input),
            (0, Exec (paletteArgs shortest_1e21 with_clip clip_input clip_palette)),
            (0, Exec (renderArgs shortest_1e21 with_clip clip_input clip_palette clip_output)),
            (0, ReadFile clip_output),
            (0, CreateObjectURL 0 6 ''image/gif''),
            (0, DeleteFile clip_input),
            (0, DeleteFile clip_palette),
            (0, DeleteFile clip_output)]\<rparr>)"
  by (simp add: run_defs sample_defs)


lemma run_palette_fails:
  "generateGif palette_fails 0 with_clip =
     (clip_task palette_fails 0 with_clip (Caught ExecPalette),
      with_clip
        \<lparr>loaded := True, generating := False, progress := Fin 0,
         status := ''Conversion failed. Try a shorter clip or lower preset.'',
         log := load_events 0 @
           [(0, FetchFile ''clip.mp4''),
            (0, WriteFile clip_input),
            (0, Exec (paletteArgs shortest_1e21 with_clip clip_input clip_palette)),
            (0, ConsoleError)]\<rparr>)"
  by (simp add: run_defs sample_defs)

lemma run_render_fails:
  "generateGif render_fails 0 with_clip =
     (clip_task render_fails 0 with_clip (Caught ExecRender),
      with_clip
        \<lparr>loaded := True, generating := False, progress := Fin 0,
         status := ''Conversion failed. Try a shorter clip or lower preset.'',
         log := load_events 0 @
           [(0, FetchFile ''clip.mp4''),
            (0, WriteFile clip_input),
            (0, Exec (paletteArgs shortest_1e21 with_clip clip_input clip_palette)),
            (0, Exec (renderArgs shortest_1e21 with_clip clip_input clip_palette clip_output)),
            (0, ConsoleError)]\<rparr>)"
  by (simp add: run_defs sample_defs)

lemma run_delete_fails:
  "generateGif delete_fails (Suc 0) with_result =
     (clip_task delete_fails (Suc 0) with_result (Caught DeleteInput),
      with_result
        \<lparr>generating := False, progress := Fin 0,
         status := ''Conversion failed. Try a shorter clip or lower preset.'',
         gifUrl := Some 1, created := [0, 1], revoked := [0],
         log :=
           [(1, FetchFile ''clip.mp4''),
            (1, WriteFile clip_input),
            (1, Exec (paletteArgs shortest_1e21 with_clip clip_input clip_palette)),
            (1, Exec (renderArgs shortest_1e21 with_clip clip_input clip_palette clip_output)),
            (1, ReadFile clip_output),
            (1, RevokeObjectURL 0),
            (1, CreateObjectURL 1 6 ''image/gif''),
            (1, DeleteFile clip_input),
            (1, ConsoleError)]\<rparr>)"
  by (simp add: run_defs sample_defs)

lemma run_palette_fails_again:
  "generateGif palette_fails (Suc 0) with_result =
     (clip_task palette_fails (Suc 0) with_result (Caught ExecPalette),
      with_result
        \<lparr>generating := False, progress := Fin 0,
         status := ''Conversion failed. Try a shorter clip or lower preset.'',
         log :=
           [(1, FetchFile ''clip.mp4''),
            (1, WriteFile clip_input),
            (1, Exec (paletteArgs shortest_1e21 with_clip clip_input clip_palette)),
            (1, ConsoleError)]\<rparr>)"
  by (simp add: run_defs sample_defs)

section \<open>The orchestrator\<close>

lemma with_clip_fields:
  "log with_clip = []" "gifUrl with_clip = None" "created with_clip = []"
  "revoked with_clip = []" "loaded with_clip = False" "generating with_clip = False"
  "file' with_clip = Some clip"
  by (simp_all add: with_clip_def initial_app_def)

lemma with_result_fields:
  "log with_result = []" "gifUrl with_result = Some 0" "created with_result = [0]"
  "revoked with_result = []" "loaded with_result = True" "generating with_result = False"
  "file' with_result = Some clip"
  by (simp_all add: with_result_def with_clip_def initial_app_def)

lemma good_world_reads:
  "readFile_result good_world n = Some (Uint8Array [71, 73, 70, 56, 57, 97])"
  by (simp add: good_world_def)

text \<open>
  C1 fails on the code. The three \<open>deleteFile\<close> calls are the last statements of the
  \<open>try\<close> block, not part of \<open>finally\<close>: a job whose palette pass rejects, after the input
  was written under its allocated name, ends in the \<open>catch\<close> block with no deletion
  attempted, whereas the run in which every call resolves deletes the three artifacts once
  each.
\<close>

theorem failed_job_leaves_artifacts:
  "pc (fst (generateGif palette_fails 0 with_clip)) = Caught ExecPalette
   \<and> WriteFile clip_input \<in> set (added with_clip (snd (generateGif palette_fails 0 with_clip)))
   \<and> filter is_delete (added with_clip (snd (generateGif palette_fails 0 with_clip))) = []
   \<and> filter is_delete (added with_clip (snd (generateGif good_world 0 with_clip))) =
       [DeleteFile clip_input, DeleteFile clip_palette, DeleteFile clip_output]"
  by (simp add: run_palette_fails run_good_world added_def clip_task_def load_events_def
      with_clip_fields)


text \<open>
  C9 as stated fails: a job whose palette pass rejects and a job whose render pass rejects
  leave the same status and, the log apart, the same state; nothing the caller receives
  tells the two phases apart.
\<close>

theorem classification_counterexample:
  "pc (fst (generateGif palette_fails 0 with_clip)) = Caught ExecPalette
   \<and> pc (fst (generateGif render_fails 0 with_clip)) = Caught ExecRender
   \<and> status (snd (generateGif palette_fails 0 with_clip)) =
       status (snd (generateGif render_fails 0 with_clip))
   \<and> (snd (generateGif palette_fails 0 with_clip))\<lparr>log := []\<rparr> =
       (snd (generateGif render_fails 0 with_clip))\<lparr>log := []\<rparr>"
  by (simp add: run_palette_fails run_render_fails clip_task_def)

text \<open>
  C10 as stated fails: in a session whose handle \<open>0\<close> is live, a job whose first deletion
  rejects ends in the \<open>catch\<close> block with the failure status, yet handle \<open>0\<close> was revoked and
  replaced by handle \<open>1\<close>.
\<close>

theorem cleanup_failure_counterexample:
  "gifUrl with_result = Some 0 \<and> live with_result = [0]
   \<and> pc (fst (generateGif delete_fails 1 with_result)) = Caught DeleteInput
   \<and> status (snd (generateGif delete_fails 1 with_result)) =
       ''Conversion failed. Try a shorter clip or lower preset.''
   \<and> gifUrl (snd (generateGif delete_fails 1 with_result)) = Some 1
   \<and> revoked (snd (generateGif delete_fails 1 with_result)) = [0]
   \<and> live (snd (generateGif delete_fails 1 with_result)) = [1]"
  by (simp add: run_delete_fails clip_task_def live_def with_result_fields)

text \<open>
  C10, as amended. The handle is revoked and replaced only after the output was read back:
  a job that ends before that point (no file, or a failure of the engine load, of the
  fetch or write of the input, of a pass, or of the read) leaves \<open>gifUrl\<close>, the minted and the
  revoked handles, and so the live handles, as they were; a job that got past that point
  did read the output and stored the newly minted handle.
\<close>

theorem failure_before_publish_keeps_result:
  "(\<not> published (pc (fst (generateGif w i s))) \<longrightarrow>
      gifUrl (snd (generateGif w i s)) = gifUrl s \<and>
      created (snd (generateGif w i s)) = created s \<and>
      revoked (snd (generateGif w i s)) = revoked s \<and>
      live (snd (generateGif w i s)) = live s)
   \<and> (published (pc (fst (generateGif w i s))) \<longrightarrow>
      readFile_result w (outputName (fst (generateGif w i s))) \<noteq> None \<and>
      gifUrl (snd (generateGif w i s)) = Some (length (created s)))"
  using generateGif_handles [of w i s] by (simp add: live_def split: if_splits)

theorem failure_before_publish_keeps_result_witness:
  "\<not> published (pc (fst (generateGif palette_fails 1 with_result)))
   \<and> gifUrl (snd (generateGif palette_fails 1 with_result)) = Some 0
   \<and> live (snd (generateGif palette_fails 1 with_result)) = [0]
   \<and> published (pc (fst (generateGif good_world 0 with_clip)))
   \<and> readFile_result good_world (outputName (fst (generateGif good_world 0 with_clip))) \<noteq> None"
  using failure_before_publish_keeps_result [of palette_fails 1 with_result]
    failure_before_publish_keeps_result [of good_world 0 with_clip]
  by (simp add: run_palette_fails_again run_good_world clip_task_def live_def
      with_result_fields with_clip_fields good_world_reads)

lemma generateGif_creates:
  "length (log s) \<le> length (log (snd (generateGif w i s))) \<and>
   (if published (pc (fst (generateGif w i s)))
    then \<exists>data. readFile_result w (outputName (fst (generateGif w i s))) = Some data \<and>
           filter is_create (added s (snd (generateGif w i s))) =
             [CreateObjectURL (length (created s)) (length (normalize_bytes data)) ''image/gif'']
    else filter is_create (added s (snd (generateGif w i s))) = [] \<and>
         created (snd (generateGif w i s)) = created s)"
proof -
  let ?P = "\<lambda>x. handler (fst x) = Generate \<and> env (fst x) = w \<and>
     length (log s) \<le> length (log (snd x)) \<and>
     (if published (pc (fst x))
      then \<exists>data. readFile_result w (outputName (fst x)) = Some data \<and>
             filter is_create (added s (snd x)) =
               [CreateObjectURL (length (created s)) (length (normalize_bytes data)) ''image/gif'']
      else filter is_create (added s (snd x)) = [] \<and> created (snd x) = created s)"
  have init: "?P (new_task Generate w i s, s)"
    by (simp add: new_task_def added_def)
  have step: "?P (resume t s')" if "?P (t, s')" "\<not> terminal (pc t)" for t s'
  proof (cases "pc t")
    case Start
    with that show ?thesis
      by (simp add: segment_defs Let_def added_def)
  next
    case (Await st)
    with that show ?thesis
      by (cases st) (auto simp add: segment_defs Let_def added_def split: option.split)
  qed (use that in simp_all)
  have "?P (run_task 13 (new_task Generate w i s, s))"
    using init step by (rule run_task_invariant [where P = ?P])
  then show ?thesis
    by (simp add: generateGif_def)
qed





section \<open>The result holder\<close>








section \<open>Overlapping invocations\<close>

lemma str_stamp_later:
  "numberToString sh (Fin 1700000000005) = ''1700000000005''"
  "numberToString sh (Fin 1700000000006) = ''1700000000006''"
  by (simp_all add: numberToString_def showNat.simps digit_char_def)

lemmas later_defs = later_world_def later_input_def later_palette_def later_output_def

lemma run_double_preload:
  "perform_all double_preload ([], initial_app) =
     ([(new_task Preload good_world 0 initial_app)\<lparr>pc := Completed\<rparr>,
       (new_task Preload good_world 1
          (initial_app
             \<lparr>status := ''Loading ffmpeg core (first run can take ~30MB)...'',
              log := [(0, EngineOnProgress), (0, ToBlobURL (CORE_BASE @ ''/ffmpeg-core.js''))]\<rparr>))
          \<lparr>pc := Completed\<rparr>],
      initial_app
        \<lparr>loaded := True, status := ''ffmpeg loaded. Ready to generate.'',
         log :=
           [(0, EngineOnProgress), (0, ToBlobURL (CORE_BASE @ ''/ffmpeg-core.js'')),
            (1, EngineOnProgress), (1, ToBlobURL (CORE_BASE @ ''/ffmpeg-core.js'')),
            (0, ToBlobURL (CORE_BASE @ ''/ffmpeg-core.wasm'')),
            (1, ToBlobURL (CORE_BASE @ ''/ffmpeg-core.wasm'')),
            (0, EngineLoad), (1, EngineLoad)]\<rparr>)"
  by (simp add: double_preload_def turn_def new_task_def segment_defs Let_def sample_defs)

lemma run_double_click:
  "perform_all double_click ([], with_clip) =
     ([clip_task good_world 0 with_clip Completed,
       (new_task Generate later_world 1
          (with_clip
             \<lparr>status := ''Loading ffmpeg core (first run can take ~30MB)...'',
              log := [(0, EngineOnProgress), (0, ToBlobURL (CORE_BASE @ ''/ffmpeg-core.js''))]\<rparr>))
          \<lparr>pc := Completed, inputName := later_input, paletteName := later_palette,
           outputName := later_output\<rparr>],
      with_clip
        \<lparr>loaded := True, generating := False, progress := Fin 0,
         status := ''Done. GIF size 0.00 MB'', gifUrl := Some 1, created := [0, 1],
         log :=
           [(0, EngineOnProgress), (0, ToBlobURL (CORE_BASE @ ''/ffmpeg-core.js'')),
            (1, EngineOnProgress), (1, ToBlobURL (CORE_BASE @ ''/ffmpeg-core.js'')),
            (0, ToBlobURL (CORE_BASE @ ''/ffmpeg-core.wasm'')),
            (1, ToBlobURL (CORE_BASE @ ''/ffmpeg-core.wasm'')),
            (0, EngineLoad), (1, EngineLoad),
            (0, FetchFile ''clip.mp4''), (1, FetchFile ''clip.mp4''),
            (0, WriteFile clip_input), (1, WriteFile later_input),
            (0, Exec (paletteArgs shortest_1e21 with_clip clip_input clip_palette)),
            (1, Exec (paletteArgs shortest_1e21 with_clip later_input later_palette)),
            (0, Exec (renderArgs shortest_1e21 with_clip clip_input clip_palette clip_output)),
            (1, Exec (renderArgs shortest_1e21 with_clip later_input later_palette later_output)),
            (0, ReadFile clip_output), (1, ReadFile later_output),
            (0, CreateObjectURL 0 6 ''image/gif''), (0, DeleteFile clip_input),
            (1, CreateObjectURL 1 6 ''image/gif''), (1, DeleteFile later_input),
            (0, DeleteFile clip_palette), (1, DeleteFile later_palette),
            (0, DeleteFile clip_output), (1, DeleteFile later_output)]\<rparr>)"
  by (simp add: double_click_def turn_def new_task_def segment_defs Let_def builder_defs
      str_stamp str_stamp_later str_15 str_960 str_256 str_small toFixed_0 toFixed_5 toFixed_tiny
      sample_defs later_defs)

text \<open>
  C7 as stated fails on its second half: two clicks on \<open>Preload ffmpeg\<close> before the first
  load has resolved subscribe twice, fetch both assets twice and call \<open>ffmpeg.load\<close> twice.
\<close>

theorem second_load_counterexample:
  "map pc (fst (perform_all double_preload ([], initial_app))) = [Completed, Completed]
   \<and> log (snd (perform_all double_preload ([], initial_app))) =
       [(0, EngineOnProgress), (0, ToBlobURL (CORE_BASE @ ''/ffmpeg-core.js'')),
        (1, EngineOnProgress), (1, ToBlobURL (CORE_BASE @ ''/ffmpeg-core.js'')),
        (0, ToBlobURL (CORE_BASE @ ''/ffmpeg-core.wasm'')),
        (1, ToBlobURL (CORE_BASE @ ''/ffmpeg-core.wasm'')),
        (0, EngineLoad), (1, EngineLoad)]
   \<and> count_list (map snd (log (snd (perform_all double_preload ([], initial_app))))) EngineLoad = 2"
  by (simp add: run_double_preload)

text \<open>
  C7, as amended. When \<open>loaded\<close> is set, \<open>loadFFmpeg\<close> returns at once and leaves the state as
  it is: nothing is subscribed, fetched or loaded, its button is disabled, and a
  \<open>generateGif\<close> with a file goes straight on past \<open>await loadFFmpeg()\<close>. When \<open>loaded\<close> is
  not set, an invocation starts a load of its own, whatever invocations are suspended: it
  subscribes to progress and fetches the first asset, and its button accepts the click.
  There is no joining of a load in flight.
\<close>

theorem load_when_ready_is_noop:
  "(loaded s \<longrightarrow> loadFFmpeg w i s = ((new_task Preload w i s)\<lparr>pc := Completed\<rparr>, s))
   \<and> (loaded s \<longrightarrow> perform (ClickPreload w) (ts, s) = (ts, s))
   \<and> (loaded s \<and> file' s \<noteq> None \<longrightarrow>
        resume (new_task Generate w i s) s = ((new_task Generate w i s)\<lparr>pc := Await LoadFFmpeg\<rparr>, s))
   \<and> (loaded s = False \<longrightarrow>
        resume (new_task Preload w i s) s =
          ((new_task Preload w i s)\<lparr>pc := Await CoreURL\<rparr>,
           s\<lparr>status := ''Loading ffmpeg core (first run can take ~30MB)...'',
             log := log s @ [(i, EngineOnProgress),
                             (i, ToBlobURL (CORE_BASE @ ''/ffmpeg-core.js''))]\<rparr>))
   \<and> (loaded s = False \<longrightarrow>
        fst (perform (ClickPreload w) (ts, s)) =
          ts @ [(new_task Preload w (length ts) s)\<lparr>pc := Await CoreURL\<rparr>])"
proof -
  have r: "resume (new_task Preload w i s) s = ((new_task Preload w i s)\<lparr>pc := Completed\<rparr>, s)"
    if "loaded s"
    using that by (simp add: new_task_def segment_defs Let_def)
  have "run_task 13 (new_task Preload w i s, s) = run_task 12 (resume (new_task Preload w i s) s)"
    by (simp only: run_task_numeral) (simp add: new_task_def)
  then have a: "loaded s \<longrightarrow> loadFFmpeg w i s = ((new_task Preload w i s)\<lparr>pc := Completed\<rparr>, s)"
    by (simp add: loadFFmpeg_def r run_task_terminal)
  have b: "loaded s \<longrightarrow> perform (ClickPreload w) (ts, s) = (ts, s)"
    by simp
  have c: "loaded s \<and> file' s \<noteq> None \<longrightarrow>
        resume (new_task Generate w i s) s = ((new_task Generate w i s)\<lparr>pc := Await LoadFFmpeg\<rparr>, s)"
    by (simp add: new_task_def segment_defs Let_def)
  have d: "loaded s = False \<longrightarrow>
        resume (new_task Preload w i s) s =
          ((new_task Preload w i s)\<lparr>pc := Await CoreURL\<rparr>,
           s\<lparr>status := ''Loading ffmpeg core (first run can take ~30MB)...'',
             log := log s @ [(i, EngineOnProgress),
                             (i, ToBlobURL (CORE_BASE @ ''/ffmpeg-core.js''))]\<rparr>)"
    by (simp add: new_task_def segment_defs Let_def)
  have e: "loaded s = False \<longrightarrow>
        fst (perform (ClickPreload w) (ts, s)) =
          ts @ [(new_task Preload w (length ts) s)\<lparr>pc := Await CoreURL\<rparr>]"
    by (simp add: turn_def new_task_def segment_defs Let_def)
  from a b c d e show ?thesis by blast
qed

theorem load_when_ready_is_noop_witness:
  "loaded with_result \<and> file' with_result \<noteq> None \<and> loaded initial_app = False
   \<and> loadFFmpeg good_world 1 with_result =
       ((new_task Preload good_world 1 with_result)\<lparr>pc := Completed\<rparr>, with_result)
   \<and> perform (ClickPreload good_world) ([], with_result) = ([], with_result)
   \<and> resume (new_task Generate good_world 1 with_result) with_result =
       ((new_task Generate good_world 1 with_result)\<lparr>pc := Await LoadFFmpeg\<rparr>, with_result)
   \<and> fst (perform (ClickPreload good_world) ([], initial_app)) =
       [(new_task Preload good_world 0 initial_app)\<lparr>pc := Await CoreURL\<rparr>]"
  using load_when_ready_is_noop [of with_result good_world 1 "[]"]
    load_when_ready_is_noop [of initial_app good_world 0 "[]"]
  by (simp add: with_result_fields initial_app_def)

text \<open>
  C8 as stated fails: two clicks on \<open>Create GIF\<close> while the engine is still loading start
  two jobs. Neither is rejected, neither waits for the other: their engine calls alternate
  in the log, both complete, and both handles they minted stay live.
\<close>

theorem interleaved_jobs_counterexample:
  "map pc (fst (perform_all double_click ([], with_clip))) = [Completed, Completed]
   \<and> map fst (log (snd (perform_all double_click ([], with_clip)))) =
       [0, 0, 1, 1, 0, 1, 0, 1, 0, 1, 0, 1, 0, 1, 0, 1, 0, 1, 0, 0, 1, 1, 0, 1, 0, 1]
   \<and> \<not> serialized (log (snd (perform_all double_click ([], with_clip))))
   \<and> live (snd (perform_all double_click ([], with_clip))) = [0, 1]"
  by (simp add: run_double_click serialized_def live_def clip_task_def with_clip_fields)

lemma sorted_distinct_adj: "sorted xs \<Longrightarrow> distinct_adj xs \<Longrightarrow> distinct (xs :: nat list)"
proof (induction xs)
  case Nil
  then show ?case by simp
next
  case (Cons x xs)
  have "x \<notin> set xs"
  proof
    assume m: "x \<in> set xs"
    then have ne: "xs \<noteq> []" by auto
    then have "hd xs \<in> set xs" by simp
    with Cons.prems(1) have "x \<le> hd xs" by simp
    moreover have "hd xs \<le> x"
      using Cons.prems(1) m ne by (cases xs) auto
    moreover have "x \<noteq> hd xs"
      using Cons.prems(2) ne by (simp add: distinct_adj_Cons)
    ultimately show False by simp
  qed
  moreover have "distinct xs"
    using Cons by (simp add: distinct_adj_Cons split: if_splits) (metis distinct_adj_ConsD Cons.prems(2))
  ultimately show ?case by simp
qed

lemma sorted_serialized: "sorted (map fst l) \<Longrightarrow> serialized l"
  unfolding serialized_def by (rule sorted_distinct_adj) simp_all

lemma sorted_append_const:
  "sorted xs \<Longrightarrow> \<forall>x\<in>set xs. x \<le> c \<Longrightarrow> set ys \<subseteq> {c} \<Longrightarrow> sorted (xs @ (ys :: nat list))"
proof -
  assume xs: "sorted xs" and le: "\<forall>x\<in>set xs. x \<le> c" and ys: "set ys \<subseteq> {c}"
  from ys have "sorted ys"
    by (induction ys) auto
  with xs le ys show ?thesis
    by (auto simp: sorted_append)
qed

lemma resume_late:
  assumes "handler t = Generate" "pc t = Await st" "late st"
  shows "handler (fst (resume t s)) = Generate \<and> tid (fst (resume t s)) = tid t \<and>
         loaded (snd (resume t s)) = loaded s \<and>
         prefix (log s) (log (snd (resume t s))) \<and>
         fst ` set (drop (length (log s)) (log (snd (resume t s)))) \<subseteq> {tid t} \<and>
         pc (fst (resume t s)) \<noteq> Await LoadFFmpeg \<and>
         (terminal (pc (fst (resume t s))) \<or>
          (\<exists>st'. pc (fst (resume t s)) = Await st' \<and> late st') \<and>
          generating (snd (resume t s)) = generating s)"
  using assms by (cases st) (simp_all add: segment_defs Let_def split: option.split)

lemma turn_late:
  assumes "handler t = Generate" "pc t = Await st" "late st"
  shows "turn t s = resume t s"
  using resume_late [OF assms, of s] by (simp add: turn_def Let_def)

lemma turn_terminal: "terminal (pc t) \<Longrightarrow> turn t s = (t, s)"
  by (cases "pc t") (simp_all add: turn_def resume_def Let_def)

lemma turn_click_loaded:
  assumes "loaded s" "file' s \<noteq> None"
  shows "handler (fst (turn (new_task Generate w i s) s)) = Generate \<and>
         tid (fst (turn (new_task Generate w i s) s)) = i \<and>
         pc (fst (turn (new_task Generate w i s) s)) = Await FetchFileSt \<and>
         generating (snd (turn (new_task Generate w i s) s)) \<and>
         loaded (snd (turn (new_task Generate w i s) s)) \<and>
         prefix (log s) (log (snd (turn (new_task Generate w i s) s))) \<and>
         fst ` set (drop (length (log s)) (log (snd (turn (new_task Generate w i s) s)))) \<subseteq> {i}"
  using assms by (auto simp add: turn_def new_task_def segment_defs Let_def)


lemma log_extended:
  assumes n: "n \<le> length (log s)"
    and srt: "sorted (map fst (drop n (log s)))"
    and bound: "\<forall>e \<in> set (drop n (log s)). fst e \<le> c"
    and pre: "prefix (log s) (log s')"
    and tags: "fst ` set (drop (length (log s)) (log s')) \<subseteq> {c}"
  shows "n \<le> length (log s') \<and> sorted (map fst (drop n (log s'))) \<and>
         (\<forall>e \<in> set (drop n (log s')). fst e \<le> c)"
proof -
  from pre obtain es where es: "log s' = log s @ es"
    by (auto simp: prefix_def)
  with tags have t: "set (map fst es) \<subseteq> {c}"
    by simp
  have d: "drop n (log s') = drop n (log s) @ es"
    using n by (simp add: es)
  have "sorted (map fst (drop n (log s)) @ map fst es)"
    using srt bound t by (intro sorted_append_const) auto
  moreover have "\<forall>e \<in> set es. fst e \<le> c"
    using t by auto
  ultimately show ?thesis
    using n bound by (auto simp: d es)
qed


lemma perform_one_job:
  assumes inv: "one_job_at_a_time n (ts, s)"
  shows "one_job_at_a_time n (perform a (ts, s))"
proof -
  from inv have l: "loaded s" and n: "n \<le> length (log s)"
    and srt: "sorted (map fst (drop n (log s)))"
    and bound: "\<forall>e \<in> set (drop n (log s)). fst e < length ts"
    and tasks: "\<forall>i < length ts.
           terminal (pc (ts ! i)) \<or>
           Suc i = length ts \<and> handler (ts ! i) = Generate \<and> tid (ts ! i) = i \<and>
           generating s \<and> (\<exists>st. pc (ts ! i) = Await st \<and> late st)"
    by (simp_all add: one_job_at_a_time_def)
  show ?thesis
  proof (cases a)
    case (ClickCreateGif w)
    show ?thesis
    proof (cases "file' s = None \<or> generating s")
      case True
      with inv show ?thesis by (simp add: ClickCreateGif)
    next
      case False
      let ?r = "turn (new_task Generate w (length ts) s) s"
      from False have f: "file' s \<noteq> None" and g: "\<not> generating s" by simp_all
      note c = turn_click_loaded [OF l f, of w "length ts"]
      have b: "\<forall>e \<in> set (drop n (log s)). fst e \<le> length ts"
        using bound by auto
      from c have lg: "n \<le> length (log (snd ?r)) \<and> sorted (map fst (drop n (log (snd ?r)))) \<and>
          (\<forall>e \<in> set (drop n (log (snd ?r))). fst e \<le> length ts)"
        by (intro log_extended [OF n srt b]) simp_all
      have old: "\<forall>i < length ts. terminal (pc (ts ! i))"
        using tasks g by auto
      have p: "perform a (ts, s) = (ts @ [fst ?r], snd ?r)"
        using False by (simp add: ClickCreateGif Let_def)
      have "\<forall>i < Suc (length ts).
           terminal (pc ((ts @ [fst ?r]) ! i)) \<or>
           i = length ts \<and> handler ((ts @ [fst ?r]) ! i) = Generate \<and>
           tid ((ts @ [fst ?r]) ! i) = i \<and> generating (snd ?r) \<and>
           (\<exists>st. pc ((ts @ [fst ?r]) ! i) = Await st \<and> late st)"
        using old c by (auto simp: nth_append less_Suc_eq)
      with lg c show ?thesis
        unfolding p one_job_at_a_time_def by (auto simp: less_Suc_eq_le)
    qed
  next
    case (ClickPreload w)
    with inv l show ?thesis by simp
  next
    case (Resume i)
    show ?thesis
    proof (cases "i < length ts")
      case False
      with inv show ?thesis by (simp add: Resume)
    next
      case True
      show ?thesis
      proof (cases "terminal (pc (ts ! i))")
        case t: True
        have "perform a (ts, s) = (ts, s)"
          using True by (simp add: Resume turn_terminal [OF t])
        with inv show ?thesis by simp
      next
        case nt: False
        from tasks True nt obtain st where h: "handler (ts ! i) = Generate"
          and ti: "tid (ts ! i) = i" and last: "Suc i = length ts" and g: "generating s"
          and st: "pc (ts ! i) = Await st" "late st"
          by blast
        let ?r = "resume (ts ! i) s"
        note c = resume_late [OF h st, of s]
        have p: "perform a (ts, s) = (ts[i := fst ?r], snd ?r)"
          using True by (simp add: Resume Let_def turn_late [OF h st])
        have b: "\<forall>e \<in> set (drop n (log s)). fst e \<le> i"
          using bound last by auto
        from c have lg: "n \<le> length (log (snd ?r)) \<and> sorted (map fst (drop n (log (snd ?r)))) \<and>
            (\<forall>e \<in> set (drop n (log (snd ?r))). fst e \<le> i)"
          by (intro log_extended [OF n srt b]) (simp_all add: ti)
        have others: "\<forall>j < length ts. j \<noteq> i \<longrightarrow> terminal (pc (ts ! j))"
          using tasks last by auto
        have "\<forall>j < length ts.
           terminal (pc (ts[i := fst ?r] ! j)) \<or>
           Suc j = length ts \<and> handler (ts[i := fst ?r] ! j) = Generate \<and>
           tid (ts[i := fst ?r] ! j) = j \<and> generating (snd ?r) \<and>
           (\<exists>st. pc (ts[i := fst ?r] ! j) = Await st \<and> late st)"
          using others c g last ti by (auto simp: nth_list_update)
        with lg c l last show ?thesis
          unfolding p one_job_at_a_time_def by (auto simp: less_Suc_eq_le)
      qed
    qed
  qed
qed

lemma perform_all_one_job:
  "one_job_at_a_time n x \<Longrightarrow> one_job_at_a_time n (perform_all acts x)"
proof (induction acts arbitrary: x)
  case Nil
  then show ?case by simp
next
  case (Cons a acts)
  obtain ts s where x: "x = (ts, s)" by (cases x)
  from Cons.prems have "one_job_at_a_time n (perform a (ts, s))"
    unfolding x by (rule perform_one_job)
  then show ?case
    by (simp add: x Cons.IH)
qed

lemma at_most_one:
  assumes "\<forall>i < length ts. P (ts ! i) \<longrightarrow> Suc i = length ts"
  shows "length (filter P ts) \<le> 1"
proof (cases ts rule: rev_cases)
  case Nil
  then show ?thesis by simp
next
  case (snoc xs x)
  have "\<not> P y" if "y \<in> set xs" for y
  proof -
    from that obtain i where i: "i < length xs" "xs ! i = y"
      by (auto simp: in_set_conv_nth)
    with assms snoc show ?thesis
      by (auto simp: nth_append dest!: spec [of _ i])
  qed
  then have "filter P xs = []"
    by (simp add: filter_empty_conv)
  with snoc show ?thesis by simp
qed

text \<open>
  C8, as amended. \<open>generateGif\<close> has no \<open>JobInProgress\<close> condition and no queue; its guard
  is the button \<open>Create GIF\<close>, disabled while \<open>generating\<close> is set: a click made then starts
  nothing. Starting from a moment at which the engine is loaded and no invocation is in
  flight (every task is at rest), whatever clicks and continuations follow: the entries
  logged from then on form one block per invocation, so the engine calls of different jobs
  never interleave, and at most one invocation is in flight at any moment.
\<close>

theorem jobs_serialized_from_rest:
  "loaded s \<Longrightarrow> list_all (\<lambda>t. terminal (pc t)) ts \<Longrightarrow>
     serialized (drop (length (log s)) (log (snd (perform_all acts (ts, s)))))
   \<and> length (filter (\<lambda>t. \<not> terminal (pc t)) (fst (perform_all acts (ts, s)))) \<le> 1
   \<and> (generating s' \<longrightarrow> perform (ClickCreateGif w) (ts', s') = (ts', s'))"
proof -
  assume l: "loaded s" and rest: "list_all (\<lambda>t. terminal (pc t)) ts"
  obtain ts'' s'' where r: "perform_all acts (ts, s) = (ts'', s'')"
    by (cases "perform_all acts (ts, s)")
  from rest have "\<forall>i < length ts. terminal (pc (ts ! i))"
    by (simp add: list_all_length)
  then have "one_job_at_a_time (length (log s)) (ts, s)"
    using l by (simp add: one_job_at_a_time_def)
  then have "one_job_at_a_time (length (log s)) (perform_all acts (ts, s))"
    by (rule perform_all_one_job)
  then have srt: "sorted (map fst (drop (length (log s)) (log s'')))"
    and tasks: "\<forall>i < length ts''. \<not> terminal (pc (ts'' ! i)) \<longrightarrow> Suc i = length ts''"
    by (auto simp: r one_job_at_a_time_def)
  from srt have "serialized (drop (length (log s)) (log s''))"
    by (rule sorted_serialized)
  moreover from tasks have "length (filter (\<lambda>t. \<not> terminal (pc t)) ts'') \<le> 1"
    by (rule at_most_one)
  ultimately show ?thesis
    by (simp add: r)
qed

lemma run_clicks_while_busy:
  "(case perform_all clicks_while_busy (rested, with_result) of
      (ts, s) \<Rightarrow>
        map pc ts = [Completed, Completed, Completed] \<and>
        map fst (log s) = [1, 1, 1, 1, 1, 1, 1, 1, 1, 1, 2, 2, 2, 2, 2, 2, 2, 2, 2, 2] \<and>
        created s = [0, 1, 2] \<and> revoked s = [0, 1] \<and> gifUrl s = Some 2)"
  by (simp add: clicks_while_busy_def rested_def clip_task_def turn_def new_task_def segment_defs
      Let_def builder_defs str_stamp str_stamp_later str_15 str_960 str_256 str_small toFixed_0
      toFixed_5 toFixed_tiny sample_defs later_defs)

theorem jobs_serialized_from_rest_witness:
  "loaded with_result \<and> list_all (\<lambda>t. terminal (pc t)) rested
   \<and> map fst (log (snd (perform_all clicks_while_busy (rested, with_result)))) =
       [1, 1, 1, 1, 1, 1, 1, 1, 1, 1, 2, 2, 2, 2, 2, 2, 2, 2, 2, 2]
   \<and> serialized (log (snd (perform_all clicks_while_busy (rested, with_result))))
   \<and> length (filter (\<lambda>t. \<not> terminal (pc t))
        (fst (perform_all clicks_while_busy (rested, with_result)))) \<le> 1
   \<and> generating (with_clip\<lparr>generating := True\<rparr>)
   \<and> perform (ClickCreateGif good_world) ([], with_clip\<lparr>generating := True\<rparr>) =
       ([], with_clip\<lparr>generating := True\<rparr>)"
  using jobs_serialized_from_rest
    [of with_result rested clicks_while_busy "with_clip\<lparr>generating := True\<rparr>" good_world "[]"]
    run_clicks_while_busy
  by (simp add: with_result_fields rested_def clip_task_def new_task_def split: prod.splits)

section \<open>The two passes of a run\<close>

lemma generateGif_execs:
  "execs (added s (snd (generateGif w i s))) =
     take (issued (pc (fst (generateGif w i s))))
       [paletteArgs (shortest w) s (inputName (fst (generateGif w i s)))
          (paletteName (fst (generateGif w i s))),
        renderArgs (shortest w) s (inputName (fst (generateGif w i s)))
          (paletteName (fst (generateGif w i s))) (outputName (fst (generateGif w i s)))]"
proof -
  let ?P = "\<lambda>x. handler (fst x) = Generate \<and> env (fst x) = w \<and> cap (fst x) = s \<and>
     length (log s) \<le> length (log (snd x)) \<and>
     execs (added s (snd x)) =
       take (issued (pc (fst x)))
         [paletteArgs (shortest w) s (inputName (fst x)) (paletteName (fst x)),
          renderArgs (shortest w) s (inputName (fst x)) (paletteName (fst x))
            (outputName (fst x))]"
  have init: "?P (new_task Generate w i s, s)"
    by (simp add: new_task_def added_def execs_def)
  have step: "?P (resume t s')" if "?P (t, s')" "\<not> terminal (pc t)" for t s'
  proof (cases "pc t")
    case Start
    with that show ?thesis
      by (simp add: segment_defs Let_def added_def execs_def)
  next
    case (Await st)
    with that show ?thesis
      by (cases st) (simp_all add: segment_defs Let_def added_def execs_def split: option.split)
  qed (use that in simp_all)
  have "?P (run_task 13 (new_task Generate w i s, s))"
    using init step by (rule run_task_invariant [where P = ?P])
  then show ?thesis
    by (simp add: generateGif_def)
qed

text \<open>
  C5. For every state and all artifact names, the two passes are built from one trim pair
  \<open>S\<close>, \<open>T\<close> and one scaling and rate expression \<open>F\<close>: both lists carry \<open>-ss S -t T\<close> right
  after the input, both filters start with \<open>F\<close>, and \<open>F\<close> ends with \<open>,setpts=PTS/<speed>\<close>
  exactly when \<open>speed\<close> is not \<open>1\<close>. And these are the lists every invocation of
  \<open>generateGif\<close> runs the engine with: from the state captured at the click and its own
  artifact names, the palette list first, then the render list, as far as it gets.
\<close>

theorem passes_share_trim_and_filter:
  "let sh = shortest w;
       S = toFixed sh (Math_max (Fin 0) (startSec s));
       T = toFixed sh (Math_max (Fin lit_0_2) (durationSec s));
       F = ''fps='' @ numberToString sh (fps s) @ '',scale='' @ numberToString sh (width s) @
           '':-1:flags=lanczos'' @
           (if speed s = Fin 1 then [] else '',setpts=PTS/'' @ numberToString sh (speed s));
       P = (\<lambda>inp pal.
              [''-y'', ''-i'', inp, ''-ss'', S, ''-t'', T, ''-frames:v'', ''1'', ''-update'', ''1'',
               ''-vf'',
               F @ '',palettegen=max_colors='' @
                 numberToString sh (Math_max (Fin 2) (Math_min (Fin 256) (colors s))) @
                 '':stats_mode=full'',
               pal]);
       R = (\<lambda>inp pal out.
              [''-y'', ''-i'', inp, ''-ss'', S, ''-t'', T, ''-i'', pal, ''-lavfi'',
               F @ ''[x];[x][1:v]paletteuse=dither='' @ dither_str (dither s) @
                 '':diff_mode=rectangle'',
               ''-loop'', numberToString sh (loopCount s), out]);
       t' = fst (generateGif w i s)
   in paletteArgs sh s inp pal = P inp pal
    \<and> renderArgs sh s inp pal out = R inp pal out
    \<and> execs (added s (snd (generateGif w i s))) =
        take (issued (pc t'))
          [P (inputName t') (paletteName t'),
           R (inputName t') (paletteName t') (outputName t')]"
  using generateGif_execs [of s w i] by (simp add: builder_defs Let_def)

section \<open>Rejected calls\<close>

lemma awaited_from_stage:
  "awaited c = (if loaded c then from_stage LoadFFmpeg else from_stage CoreURL)"
  by (simp add: awaited_def from_stage_def)

lemma generateGif_no_file:
  assumes "file' s = None"
  shows "generateGif w i s =
     ((new_task Generate w i s)\<lparr>pc := ReturnedNoFile\<rparr>,
      s\<lparr>status := ''Choose a video file first.''\<rparr>)"
proof -
  have r: "resume (new_task Generate w i s) s =
      ((new_task Generate w i s)\<lparr>pc := ReturnedNoFile\<rparr>,
       s\<lparr>status := ''Choose a video file first.''\<rparr>)"
    using assms by (simp add: new_task_def segment_defs Let_def)
  have "run_task 13 (new_task Generate w i s, s) =
      run_task 12 (resume (new_task Generate w i s) s)"
    by (simp only: run_task_numeral) (simp add: new_task_def)
  then show ?thesis
    by (simp add: generateGif_def r run_task_terminal)
qed

lemma generateGif_first_rejection:
  assumes f: "file' s = Some f"
  shows "case pc (fst (generateGif w i s)) of
           Completed \<Rightarrow>
             first_rejection w s f = None \<and> generating (snd (generateGif w i s)) = False
         | Caught st \<Rightarrow>
             first_rejection w s f = Some st \<and>
             status (snd (generateGif w i s)) =
               ''Conversion failed. Try a shorter clip or lower preset.'' \<and>
             generating (snd (generateGif w i s)) = False \<and>
             last (log (snd (generateGif w i s))) = (i, ConsoleError)
         | _ \<Rightarrow> False"
proof -
  let ?P = "\<lambda>x. handler (fst x) = Generate \<and> env (fst x) = w \<and> cap (fst x) = s \<and>
     tid (fst x) = i \<and>
     (case pc (fst x) of
        Start \<Rightarrow> True
      | Await st \<Rightarrow>
          first_rejection w s f = find (rejects w s f) (from_stage st) \<and>
          (late st \<longrightarrow>
             inputName (fst x) = input_name w f \<and> paletteName (fst x) = palette_name w \<and>
             outputName (fst x) = output_name w)
      | ReturnedNoFile \<Rightarrow> False
      | Completed \<Rightarrow> first_rejection w s f = None \<and> generating (snd x) = False
      | Caught st \<Rightarrow>
          first_rejection w s f = Some st \<and>
          status (snd x) = ''Conversion failed. Try a shorter clip or lower preset.'' \<and>
          generating (snd x) = False \<and> log (snd x) \<noteq> [] \<and> last (log (snd x)) = (i, ConsoleError)
      | Rejected st \<Rightarrow> False)"
  have init: "?P (new_task Generate w i s, s)"
    by (simp add: new_task_def)
  have step: "?P (resume t s')" if "?P (t, s')" "\<not> terminal (pc t)" for t s'
  proof (cases "pc t")
    case Start
    with that f show ?thesis
      by (simp add: segment_defs Let_def first_rejection_def awaited_from_stage)
  next
    case (Await st)
    with that f show ?thesis
      by (cases st)
        (simp_all add: segment_defs Let_def from_stage_def input_name_def palette_name_def
          output_name_def split: option.split)
  qed (use that in simp_all)
  have "?P (run_task 13 (new_task Generate w i s, s))"
    using init step by (rule run_task_invariant [where P = ?P])
  moreover have "terminal (pc (fst (generateGif w i s)))"
    by (rule generateGif_rests)
  ultimately show ?thesis
    by (cases "pc (fst (generateGif w i s))") (simp_all add: generateGif_def)
qed

text \<open>
  C9, as amended. Every awaited call that rejects inside the \<open>try\<close> block of \<open>generateGif\<close>
  is caught there, and nothing is classified. With no file selected the invocation returns
  at once and leaves only the status \<open>Choose a video file first.\<close>. With a file, the
  outcome is decided by the first of the awaited calls that rejects: if there is one, the
  invocation stops at that call, whatever it is, the error goes to the console, the status
  is the single text \<open>Conversion failed. Try a shorter clip or lower preset.\<close> and
  \<open>generating\<close> is reset; if there is none, the invocation completes and \<open>generating\<close> is
  reset. A pass of the engine that resolves is not a rejection, whatever its exit code.
\<close>

theorem rejections_caught_with_one_status:
  "(file' s = None \<longrightarrow>
      pc (fst (generateGif w i s)) = ReturnedNoFile \<and>
      snd (generateGif w i s) = s\<lparr>status := ''Choose a video file first.''\<rparr>)
   \<and> (file' s = Some f \<longrightarrow>
      (case first_rejection w s f of
         None \<Rightarrow>
           pc (fst (generateGif w i s)) = Completed \<and>
           generating (snd (generateGif w i s)) = False
       | Some st \<Rightarrow>
           pc (fst (generateGif w i s)) = Caught st \<and>
           status (snd (generateGif w i s)) =
             ''Conversion failed. Try a shorter clip or lower preset.'' \<and>
           generating (snd (generateGif w i s)) = False \<and>
           last (log (snd (generateGif w i s))) = (i, ConsoleError)))"
proof -
  have a: "file' s = None \<longrightarrow>
      pc (fst (generateGif w i s)) = ReturnedNoFile \<and>
      snd (generateGif w i s) = s\<lparr>status := ''Choose a video file first.''\<rparr>"
    by (simp add: generateGif_no_file)
  have b: "file' s = Some f \<longrightarrow>
      (case first_rejection w s f of
         None \<Rightarrow>
           pc (fst (generateGif w i s)) = Completed \<and>
           generating (snd (generateGif w i s)) = False
       | Some st \<Rightarrow>
           pc (fst (generateGif w i s)) = Caught st \<and>
           status (snd (generateGif w i s)) =
             ''Conversion failed. Try a shorter clip or lower preset.'' \<and>
           generating (snd (generateGif w i s)) = False \<and>
           last (log (snd (generateGif w i s))) = (i, ConsoleError))"
  proof
    assume "file' s = Some f"
    from generateGif_first_rejection [OF this, of w i]
    show "case first_rejection w s f of
         None \<Rightarrow>
           pc (fst (generateGif w i s)) = Completed \<and>
           generating (snd (generateGif w i s)) = False
       | Some st \<Rightarrow>
           pc (fst (generateGif w i s)) = Caught st \<and>
           status (snd (generateGif w i s)) =
             ''Conversion failed. Try a shorter clip or lower preset.'' \<and>
           generating (snd (generateGif w i s)) = False \<and>
           last (log (snd (generateGif w i s))) = (i, ConsoleError)"
      by (cases "pc (fst (generateGif w i s))") (auto split: option.splits)
  qed
  from a b show ?thesis by blast
qed

lemma first_rejection_samples:
  "first_rejection palette_fails with_clip clip = Some ExecPalette"
  "first_rejection exit_code_1 with_clip clip = None"
  by (simp_all add: first_rejection_def awaited_def input_name_def palette_name_def
      output_name_def builder_defs sample_defs)

lemma exit_code_1_palette:
  "exec_result exit_code_1
     (paletteArgs (shortest exit_code_1) with_clip (input_name exit_code_1 clip)
        (palette_name exit_code_1)) = Some 1"
  by (simp add: exit_code_1_def good_world_def)

lemma run_exit_code_1:
  "status (snd (generateGif exit_code_1 0 with_clip)) = ''Done. GIF size 0.00 MB''"
  by (simp add: run_defs sample_defs)

theorem rejections_caught_with_one_status_witness:
  "file' with_clip = Some clip
   \<and> first_rejection palette_fails with_clip clip = Some ExecPalette
   \<and> pc (fst (generateGif palette_fails 0 with_clip)) = Caught ExecPalette
   \<and> status (snd (generateGif palette_fails 0 with_clip)) =
       ''Conversion failed. Try a shorter clip or lower preset.''
   \<and> first_rejection exit_code_1 with_clip clip = None
   \<and> exec_result exit_code_1
       (paletteArgs (shortest exit_code_1) with_clip (input_name exit_code_1 clip)
          (palette_name exit_code_1)) = Some 1
   \<and> pc (fst (generateGif exit_code_1 0 with_clip)) = Completed
   \<and> status (snd (generateGif exit_code_1 0 with_clip)) = ''Done. GIF size 0.00 MB''
   \<and> file' initial_app = None
   \<and> pc (fst (generateGif good_world 0 initial_app)) = ReturnedNoFile"
  using rejections_caught_with_one_status
      [where s = with_clip and f = clip and w = palette_fails and i = 0]
    rejections_caught_with_one_status
      [where s = with_clip and f = clip and w = exit_code_1 and i = 0]
    rejections_caught_with_one_status
      [where s = initial_app and f = clip and w = good_world and i = 0]
  by (simp add: first_rejection_samples exit_code_1_palette run_exit_code_1 with_clip_fields
      initial_app_def)

section \<open>The states of a completed run\<close>







end
